theory Spec2Isabelle
  imports Complex_Main "HOL-Library.Log_Nat"
begin

section \<open>Values of the host language and of the persistence client\<close>

text \<open>
  The application is a set of React components written in TypeScript that talk to a
  hosted database through a client library. Each component function is embedded as a
  HOL function from the state of the component and the answers of the outside world
  (the session, the database, the browser) to the list of effects the function performs,
  in order, together with the exception that leaves the function, if any.

  An error object of the client carries a code and a message.
\<close>

datatype jsError = JsError (code: string) (errorMessage: string)

text \<open>
  An awaited call either resolves with a value or rejects with an error; a rejection is
  an exception at the \<open>await\<close>.
\<close>

datatype 'a awaited = Resolved 'a | Rejected jsError

text \<open>
  A query of the client resolves with an object \<open>{data, error, count}\<close>; each of the
  three may be \<open>null\<close>.
\<close>

record 'row response =
  data :: "'row list option"
  error :: "jsError option"
  count :: "nat option"

text \<open>
  The signed-in user, the answer of \<open>supabase.auth.getUser()\<close>, and the part of the
  outside world every component sees: the session.
\<close>

datatype user = User (uid: string)

record authResponse =
  user :: "user option"
  authError :: "jsError option"

record session =
  getUser :: "authResponse awaited"

text \<open>
  Numbers that come out of \<open>parseFloat\<close> and \<open>parseInt\<close>: a finite value or
  \<open>NaN\<close>. Every comparison with \<open>NaN\<close> is false. The infinities, which
  \<open>parseFloat\<close> returns only for the text \<open>Infinity\<close>, and the rounding of binary
  floating point are outside the model.
\<close>

datatype number = NaN | Num real

fun isNaN :: "number \<Rightarrow> bool" where
  "isNaN NaN = True"
| "isNaN (Num x) = False"

fun numLe :: "number \<Rightarrow> real \<Rightarrow> bool" where
  "numLe NaN y = False"
| "numLe (Num x) y = (x \<le> y)"

fun numLt :: "number \<Rightarrow> real \<Rightarrow> bool" where
  "numLt NaN y = False"
| "numLt (Num x) y = (x < y)"

fun numGt :: "number \<Rightarrow> real \<Rightarrow> bool" where
  "numGt NaN y = False"
| "numGt (Num x) y = (x > y)"

text \<open>
  A number of the host language is an IEEE-754 double-precision value, here the real
  number it stands for. The sum of two numbers is their exact sum rounded to the nearest
  value with a significand of 53 binary digits, a tie going to the even significand
  (\<open>0.1 + 0.2\<close> is \<open>0.30000000000000004\<close>). For \<open>x > 0\<close>, \<open>binaryExponent x\<close> is
  the \<open>e\<close> with \<open>2^e \<le> x < 2^(e+1)\<close>, read off the number of binary digits of the
  integer part of \<open>x\<close>, or of \<open>1 / x\<close> when \<open>x < 1\<close>; the spacing of the values around
  \<open>x\<close> is \<open>2^(e - 52)\<close>, and \<open>2^(- 1074)\<close> below \<open>2^(- 1022)\<close>. Overflow to
  infinity is outside the model: the amounts added are \<open>NUMERIC(10, 2)\<close> values.
\<close>

definition roundHalfEven :: "real \<Rightarrow> int" where
  "roundHalfEven x =
     (let n = \<lfloor>x\<rfloor>; d = x - of_int n
      in if d < 1 / 2 then n else if 1 / 2 < d then n + 1 else if even n then n else n + 1)"

definition binaryExponent :: "real \<Rightarrow> int" where
  "binaryExponent x = (if 1 \<le> x then bitlen \<lfloor>x\<rfloor> - 1 else - bitlen (\<lceil>1 / x\<rceil> - 1))"

definition roundDouble :: "real \<Rightarrow> real" where
  "roundDouble x =
     (if x = 0 then 0
      else (let q = 2 powi (max (binaryExponent \<bar>x\<bar>) (- 1022) - 52)
            in of_int (roundHalfEven (x / q)) * q))"

definition addNumber :: "real \<Rightarrow> real \<Rightarrow> real" where
  "addNumber x y = roundDouble (x + y)"

text \<open>
  A value in an object literal sent to the database, and the object literal itself, as
  the list of its properties in the order the source writes them.
\<close>

datatype jsValue = JsString string | JsNumber number | JsNull

type_synonym payload = "(string \<times> jsValue) list"

text \<open>
  A toast is a transient notification; its variant is \<open>destructive\<close> for an error
  message. The description is optional.
\<close>

datatype variant = Default | Destructive

record toast =
  title :: string
  description :: "string option"
  variant :: variant

text \<open>
  White space as \<open>String.prototype.trim\<close> and the regular expression class \<open>\s\<close>
  read it. A character of a HOL string is one code unit below 256: tab, line feed,
  vertical tab, form feed, carriage return, space and the no-break space.
\<close>

definition isSpace :: "char \<Rightarrow> bool" where
  "isSpace c = (of_char c \<in> {9, 10, 11, 12, 13, 32, 160 :: nat})"

definition trim :: "string \<Rightarrow> string" where
  "trim s = rev (dropWhile isSpace (rev (dropWhile isSpace s)))"

section \<open>Effects\<close>

text \<open>
  What a component function does, in the order it does it: state updates, notifications,
  console lines, writes to the database (table, row and, for an update or a delete, the
  \<open>.eq(column, value)\<close> filter), the reloads of the component's own list and the
  \<open>onUpdate\<close> callback, which is the dashboard's \<open>loadStats\<close>.
\<close>

record paymentStats =
  pendingPayments :: nat
  totalRevenue :: real

record stats = paymentStats +
  properties :: nat
  activeLeases :: nat

datatype effect =
    PreventDefault
  | ConfirmPrompt string
  | ConsoleError string
  | ShowToast toast
  | SetStats stats
  | SetOpen bool
  | SetMessage string
  | SetIsSubmitting bool
  | SetTenantEmail string
  | SetEditingPropertyNull
  | DbInsert string payload
  | DbUpdate string payload "string \<times> string"
  | DbDelete string "string \<times> string"
  | LoadProperties
  | LoadLeases
  | LoadPayments
  | OnUpdate

type_synonym outcome = "effect list \<times> jsError option"

fun isWrite :: "effect \<Rightarrow> bool" where
  "isWrite (DbInsert t row) = True"
| "isWrite (DbUpdate t row f) = True"
| "isWrite (DbDelete t f) = True"
| "isWrite e = False"

fun isRefresh :: "effect \<Rightarrow> bool" where
  "isRefresh LoadProperties = True"
| "isRefresh LoadLeases = True"
| "isRefresh LoadPayments = True"
| "isRefresh OnUpdate = True"
| "isRefresh e = False"

fun isErrorToast :: "effect \<Rightarrow> bool" where
  "isErrorToast (ShowToast t) = (variant t = Destructive)"
| "isErrorToast e = False"

text \<open>
  \<open>try { body } catch (error) { handler }\<close>: the handler's effects follow the body's
  when the body throws, and nothing is thrown further.
\<close>

definition tryCatch :: "outcome \<Rightarrow> effect list \<Rightarrow> outcome" where
  "tryCatch body handler =
     (case snd body of None \<Rightarrow> body | Some e \<Rightarrow> (fst body @ handler, None))"

section \<open>Landlord dashboard: the statistics aggregation\<close>

text \<open>
  A row of \<open>rent_payments\<close> as the aggregation selects it (\<open>amount, late_fee, status\<close>).
  The columns are \<open>NUMERIC(10, 2)\<close>; \<open>amount\<close> is \<open>NOT NULL\<close>, \<open>late_fee\<close> may be
  \<open>null\<close>. The client delivers each as a number of the host language.
\<close>

record payment =
  amount :: real
  late_fee :: "real option"
  status :: string

text \<open>\<open>Number(x)\<close> on a number is the number; \<open>Number(null)\<close> is 0.\<close>

definition Number :: "real option \<Rightarrow> real" where
  "Number x = (case x of None \<Rightarrow> 0 | Some r \<Rightarrow> r)"

text \<open>
  The callback of \<open>reduce\<close>: one payment folded into the accumulator
  \<open>{ pendingPayments, totalRevenue }\<close>. The statement
  \<open>acc.totalRevenue += Number(p.amount) + Number(p.late_fee)\<close> makes two additions of
  numbers: the amount and the late fee first, then the accumulator and their sum.
\<close>

definition reducer :: "paymentStats \<Rightarrow> payment \<Rightarrow> paymentStats" where
  "reducer acc p =
     (if status p = ''pending'' \<or> status p = ''overdue''
      then acc\<lparr>pendingPayments := pendingPayments acc + 1\<rparr>
      else if status p = ''paid''
      then acc\<lparr>totalRevenue :=
                 addNumber (totalRevenue acc)
                   (addNumber (Number (Some (amount p))) (Number (late_fee p)))\<rparr>
      else acc)"

text \<open>\<open>(payments.data || []).reduce(callback, { pendingPayments: 0, totalRevenue: 0 })\<close>\<close>

definition or_empty :: "'a list option \<Rightarrow> 'a list" where
  "or_empty d = (case d of None \<Rightarrow> [] | Some xs \<Rightarrow> xs)"

definition paymentStats :: "payment list option \<Rightarrow> paymentStats" where
  "paymentStats d = foldl reducer \<lparr>pendingPayments = 0, totalRevenue = 0\<rparr> (or_empty d)"

text \<open>
  No addition rounds when the rows are added to \<open>s\<close> in order: neither the sum of a
  row's amount and late fee, nor the sum of the accumulator and that.
\<close>

fun noRounding :: "real \<Rightarrow> payment list \<Rightarrow> bool" where
  "noRounding s [] = True"
| "noRounding s (p # ps) =
     (addNumber (amount p) (Number (late_fee p)) = amount p + Number (late_fee p)
      \<and> addNumber s (amount p + Number (late_fee p)) = s + (amount p + Number (late_fee p))
      \<and> noRounding (s + (amount p + Number (late_fee p))) ps)"

text \<open>\<open>count || 0\<close>\<close>

definition or_zero :: "nat option \<Rightarrow> nat" where
  "or_zero c = (case c of None \<Rightarrow> 0 | Some n \<Rightarrow> n)"

text \<open>
  What the outside world answers to \<open>loadStats\<close>: the session, and the three queries
  that \<open>Promise.all\<close> awaits together. The rows of the two counting queries are never
  read, so their type is left open.
\<close>

record ('p, 'l) dashboardWorld = session +
  propertiesQuery :: "'p response awaited"
  leasesQuery :: "'l response awaited"
  paymentsQuery :: "payment response awaited"

text \<open>
  \<open>Promise.all\<close> of three promises: resolves with the three values, rejects when one
  of them rejects. When several reject, the reason it reports depends on timing; the
  model takes the first in argument order. \<open>loadStats\<close> does not look at the reason.
\<close>

definition Promise_all3 :: "'a awaited \<Rightarrow> 'b awaited \<Rightarrow> 'c awaited \<Rightarrow> ('a \<times> 'b \<times> 'c) awaited" where
  "Promise_all3 a b c =
     (case a of Rejected e \<Rightarrow> Rejected e
      | Resolved x \<Rightarrow>
        (case b of Rejected e \<Rightarrow> Rejected e
         | Resolved y \<Rightarrow>
           (case c of Rejected e \<Rightarrow> Rejected e
            | Resolved z \<Rightarrow> Resolved (x, y, z))))"

text \<open>
  The \<open>try\<close> block of \<open>loadStats\<close>. It throws the session's error and the error of
  each of the three queries; with no user it returns early.
\<close>

definition loadStats_try :: "('p, 'l) dashboardWorld \<Rightarrow> outcome" where
  "loadStats_try w =
     (case getUser w of
        Rejected e \<Rightarrow> ([], Some e)
      | Resolved auth \<Rightarrow>
        (case authError auth of
           Some e \<Rightarrow> ([], Some e)
         | None \<Rightarrow>
           (case user auth of
              None \<Rightarrow> ([], None)
            | Some u \<Rightarrow>
              (case Promise_all3 (propertiesQuery w) (leasesQuery w) (paymentsQuery w) of
                 Rejected e \<Rightarrow> ([], Some e)
               | Resolved (propertiesRes, leasesRes, paymentsRes) \<Rightarrow>
                 (case error propertiesRes of
                    Some e \<Rightarrow> ([], Some e)
                  | None \<Rightarrow>
                    (case error leasesRes of
                       Some e \<Rightarrow> ([], Some e)
                     | None \<Rightarrow>
                       (case error paymentsRes of
                          Some e \<Rightarrow> ([], Some e)
                        | None \<Rightarrow>
                          ([SetStats
                             \<lparr>pendingPayments = pendingPayments (paymentStats (data paymentsRes)),
                              totalRevenue = totalRevenue (paymentStats (data paymentsRes)),
                              properties = or_zero (count propertiesRes),
                              activeLeases = or_zero (count leasesRes)\<rparr>], None))))))))"

text \<open>
  \<open>loadStats\<close> with its \<open>catch\<close> clause: the error is logged and the four statistics
  are reset.
\<close>

definition zeroStats :: stats where
  "zeroStats = \<lparr>pendingPayments = 0, totalRevenue = 0, properties = 0, activeLeases = 0\<rparr>"

definition loadStats :: "('p, 'l) dashboardWorld \<Rightarrow> outcome" where
  "loadStats w =
     tryCatch (loadStats_try w) [ConsoleError ''Error loading stats:'', SetStats zeroStats]"

text \<open>The statistics the component holds after the effects, when it held \<open>s\<close> before.\<close>

fun statsAfter :: "stats \<Rightarrow> effect list \<Rightarrow> stats" where
  "statsAfter s [] = s"
| "statsAfter s (SetStats s' # es) = statsAfter s' es"
| "statsAfter s (e # es) = statsAfter s es"

text \<open>A query of the aggregation fails when it rejects or resolves with an error.\<close>

definition fetchFailed :: "'r response awaited \<Rightarrow> bool" where
  "fetchFailed q = (case q of Rejected e \<Rightarrow> True | Resolved r \<Rightarrow> error r \<noteq> None)"

section \<open>Tenant dashboard: the catalog of available properties\<close>

definition PAGE_SIZE :: int where
  "PAGE_SIZE = 12"

text \<open>
  The page index is component state, a number that starts at 0 (\<open>useState(0)\<close>); it is
  modelled as an integer. \<open>const offset = pageIndex * PAGE_SIZE\<close>.
\<close>

definition offset :: "int \<Rightarrow> int" where
  "offset pageIndex = pageIndex * PAGE_SIZE"

text \<open>
  A read request as the query builder assembles it: the table, the selected columns, the
  equality filters, the ordering (column and whether ascending) and the row range. The
  client's \<open>range(from, to)\<close> names the first and the last row, both included, counted
  from 0.
\<close>

record readQuery =
  fromTable :: string
  selectColumns :: string
  eqFilters :: "(string \<times> string) list"
  orderBy :: "(string \<times> bool) option"
  rowRange :: "(int \<times> int) option"

definition fromTableQ :: "string \<Rightarrow> readQuery" where
  "fromTableQ t =
     \<lparr>fromTable = t, selectColumns = [], eqFilters = [], orderBy = None, rowRange = None\<rparr>"

definition selectQ :: "readQuery \<Rightarrow> string \<Rightarrow> readQuery" where
  "selectQ q cols = q\<lparr>selectColumns := cols\<rparr>"

definition eqQ :: "readQuery \<Rightarrow> string \<Rightarrow> string \<Rightarrow> readQuery" where
  "eqQ q col v = q\<lparr>eqFilters := eqFilters q @ [(col, v)]\<rparr>"

definition orderQ :: "readQuery \<Rightarrow> string \<Rightarrow> bool \<Rightarrow> readQuery" where
  "orderQ q col ascending = q\<lparr>orderBy := Some (col, ascending)\<rparr>"

definition rangeQ :: "readQuery \<Rightarrow> int \<Rightarrow> int \<Rightarrow> readQuery" where
  "rangeQ q firstRow lastRow = q\<lparr>rowRange := Some (firstRow, lastRow)\<rparr>"

text \<open>
  The request \<open>queryFn\<close> sends for a page index:
  \<open>from("properties").select(...).eq("status", "available")
   .order("created_at", { ascending: false }).range(offset, offset + PAGE_SIZE - 1)\<close>.
\<close>

definition queryFn :: "int \<Rightarrow> readQuery" where
  "queryFn pageIndex =
     rangeQ
       (orderQ
         (eqQ
           (selectQ (fromTableQ ''properties'')
              ''id, name, address, unit_number, landlord_id, created_at, rent_amount'')
           ''status'' ''available'')
         ''created_at'' False)
       (offset pageIndex) (offset pageIndex + PAGE_SIZE - 1)"

text \<open>
  The offset and the limit an inclusive row range stands for, and the rows it asks for.
\<close>

definition rangeOffset :: "int \<times> int \<Rightarrow> int" where
  "rangeOffset r = fst r"

definition rangeLimit :: "int \<times> int \<Rightarrow> int" where
  "rangeLimit r = snd r - fst r + 1"

definition rangeRows :: "int \<times> int \<Rightarrow> int set" where
  "rangeRows r = {fst r .. snd r}"

text \<open>The two page handlers: the functions they pass to \<open>setPageIndex\<close>.\<close>

definition handlePrevPage :: "int \<Rightarrow> int" where
  "handlePrevPage prev = max 0 (prev - 1)"

definition handleNextPage :: "int \<Rightarrow> int" where
  "handleNextPage prev = prev + 1"

datatype pageAction = PrevPage | NextPage

fun pageStep :: "int \<Rightarrow> pageAction \<Rightarrow> int" where
  "pageStep pageIndex PrevPage = handlePrevPage pageIndex"
| "pageStep pageIndex NextPage = handleNextPage pageIndex"

text \<open>The page index after a sequence of clicks, from the initial state 0.\<close>

definition pageIndexAfter :: "pageAction list \<Rightarrow> int" where
  "pageIndexAfter actions = foldl pageStep 0 actions"

text \<open>
  \<open>const hasNextPage = properties && properties.length === PAGE_SIZE\<close> and
  \<open>const hasPrevPage = pageIndex > 0\<close>. The fetched page is \<open>undefined\<close> (here
  \<open>None\<close>) until the query has answered; \<open>hasNextPage\<close> is then \<open>undefined\<close>, which
  the only use, \<open>!hasNextPage\<close>, reads as false.
\<close>

definition hasNextPage :: "'row list option \<Rightarrow> bool" where
  "hasNextPage page =
     (case page of None \<Rightarrow> False | Some rows \<Rightarrow> int (length rows) = PAGE_SIZE)"

definition hasPrevPage :: "int \<Rightarrow> bool" where
  "hasPrevPage pageIndex = (pageIndex > 0)"

text \<open>
  What the component renders: the error card, the loading skeletons, the grid of
  properties with the two page buttons (each with its \<open>disabled\<close> attribute), or the
  empty state, which has no buttons.
\<close>

datatype 'row view =
    ErrorCard
  | Skeletons
  | PropertyGrid "'row list" (prevDisabled: bool) (nextDisabled: bool)
  | NoProperties

definition render :: "int \<Rightarrow> 'row list option \<Rightarrow> bool \<Rightarrow> bool \<Rightarrow> 'row view" where
  "render pageIndex page isLoading hasError =
     (if hasError then ErrorCard
      else if isLoading then Skeletons
      else (case page of
              None \<Rightarrow> NoProperties
            | Some rows \<Rightarrow>
                if length rows > 0
                then PropertyGrid rows (\<not> hasPrevPage pageIndex) (\<not> hasNextPage page)
                else NoProperties))"

section \<open>Tenant dashboard: the message dialog\<close>

text \<open>
  The state and the properties of the dialog, and the answer to the one insert it sends
  (\<open>{ error: insertError }\<close>).
\<close>

record contactWorld = session +
  message :: string
  isSubmitting :: bool
  propertyId :: string
  landlordId :: string
  insertResult :: "jsError option awaited"

definition trimmedMessage :: "string \<Rightarrow> string" where
  "trimmedMessage m = trim m"

definition isValid :: "string \<Rightarrow> bool" where
  "isValid m = (length (trimmedMessage m) \<ge> 1 \<and> length (trimmedMessage m) \<le> 500)"

definition permissionDeniedToast :: toast where
  "permissionDeniedToast =
     \<lparr>title = ''Permission denied'',
      description = Some ''You don't have permission to send this message.'',
      variant = Destructive\<rparr>"

definition sendFailedToast :: toast where
  "sendFailedToast =
     \<lparr>title = ''Failed to send message'',
      description = Some ''An error occurred. Please try again later.'',
      variant = Destructive\<rparr>"

definition messagePayload :: "contactWorld \<Rightarrow> user \<Rightarrow> payload" where
  "messagePayload w u =
     [(''property_id'', JsString (propertyId w)),
      (''landlord_id'', JsString (landlordId w)),
      (''sender_id'', JsString (uid u)),
      (''message'', JsString (trimmedMessage (message w)))]"

text \<open>
  The \<open>try\<close> block of the dialog's \<open>handleSubmit\<close>, entered after
  \<open>setIsSubmitting(true)\<close>.
\<close>

definition contact_handleSubmit_try :: "contactWorld \<Rightarrow> outcome" where
  "contact_handleSubmit_try w =
     (case getUser w of
        Rejected e \<Rightarrow> ([], Some e)
      | Resolved auth \<Rightarrow>
        (case (authError auth, user auth) of
           (None, Some u) \<Rightarrow>
             (case insertResult w of
                Rejected e \<Rightarrow> ([DbInsert ''messages'' (messagePayload w u)], Some e)
              | Resolved (Some insertError) \<Rightarrow>
                  ([DbInsert ''messages'' (messagePayload w u),
                    ShowToast (if code insertError = ''42501''
                               then permissionDeniedToast else sendFailedToast),
                    SetIsSubmitting False], None)
              | Resolved None \<Rightarrow>
                  ([DbInsert ''messages'' (messagePayload w u),
                    ShowToast \<lparr>title = ''Message sent'',
                               description = Some ''The landlord will receive your message.'',
                               variant = Default\<rparr>,
                    SetMessage [],
                    SetOpen False], None))
         | _ \<Rightarrow>
             ([ShowToast \<lparr>title = ''Authentication required'',
                          description = Some ''Please sign in to send messages.'',
                          variant = Destructive\<rparr>,
               SetIsSubmitting False], None)))"

text \<open>
  \<open>handleSubmit\<close> of the dialog: the guard, then the \<open>try\<close> block with its \<open>catch\<close>
  and \<open>finally\<close> clauses.
\<close>

definition contact_handleSubmit :: "contactWorld \<Rightarrow> outcome" where
  "contact_handleSubmit w =
     (if \<not> isValid (message w) \<or> isSubmitting w then ([PreventDefault], None)
      else
        (let r = tryCatch (contact_handleSubmit_try w)
                   [ShowToast \<lparr>title = ''Failed to send message'',
                               description = Some ''An unexpected error occurred.'',
                               variant = Destructive\<rparr>]
         in ([PreventDefault, SetIsSubmitting True] @ fst r @ [SetIsSubmitting False], snd r)))"

section \<open>Landlord dashboard: properties, leases and payments\<close>

text \<open>
  What the three sections read from outside: the session, the answer to the confirmation
  prompt, the submitted form, the host's \<open>parseFloat\<close> and \<open>parseInt\<close>, the tenant
  email typed into the lease form, the property being edited (its id; \<open>None\<close> when the
  form creates one), the \<open>profiles\<close> lookup by email, the answer \<open>{ error }\<close> to the one
  write a handler sends, and the clock.

  The repository holds the lease and the payment section in two versions; the one
  embedded here is the later one, which validates the form before it writes. The
  properties section is embedded as \<open>PropertiesSection.tsx\<close> has it.
\<close>

record profileResponse =
  profile :: "string option"
  profileError :: "jsError option"

record crudWorld = session +
  confirmAnswer :: bool
  formData :: "string \<Rightarrow> string option"
  parseFloat :: "string \<Rightarrow> number"
  parseInt :: "string \<Rightarrow> number"
  tenantEmail :: string
  editingProperty :: "string option"
  findProfile :: "string \<Rightarrow> profileResponse awaited"
  writeResult :: "jsError option awaited"
  now :: string

text \<open>
  \<open>formData.get(k) as string\<close>, \<open>formData.get(k) as string || null\<close>,
  \<open>parseFloat(formData.get(k) as string)\<close> (a missing entry is \<open>null\<close>, which parses
  to \<open>NaN\<close>), \<open>parseInt(...)\<close> and \<open>n || null\<close> on a number.
\<close>

definition formEntry :: "crudWorld \<Rightarrow> string \<Rightarrow> jsValue" where
  "formEntry w k = (case formData w k of None \<Rightarrow> JsNull | Some v \<Rightarrow> JsString v)"

definition formEntryOrNull :: "crudWorld \<Rightarrow> string \<Rightarrow> jsValue" where
  "formEntryOrNull w k =
     (case formData w k of None \<Rightarrow> JsNull | Some v \<Rightarrow> if v = [] then JsNull else JsString v)"

definition parseFloatOf :: "crudWorld \<Rightarrow> string \<Rightarrow> number" where
  "parseFloatOf w k = (case formData w k of None \<Rightarrow> NaN | Some v \<Rightarrow> parseFloat w v)"

definition parseIntOf :: "crudWorld \<Rightarrow> string \<Rightarrow> number" where
  "parseIntOf w k = (case formData w k of None \<Rightarrow> NaN | Some v \<Rightarrow> parseInt w v)"

definition numberOrNull :: "number \<Rightarrow> jsValue" where
  "numberOrNull n =
     (case n of NaN \<Rightarrow> JsNull | Num x \<Rightarrow> if x = 0 then JsNull else JsNumber (Num x))"

definition errorToast :: "string \<Rightarrow> string \<Rightarrow> effect" where
  "errorToast t d = ShowToast \<lparr>title = t, description = Some d, variant = Destructive\<rparr>"

definition successToast :: "string \<Rightarrow> effect" where
  "successToast t = ShowToast \<lparr>title = t, description = None, variant = Default\<rparr>"

subsection \<open>PropertiesSection\<close>

definition propertyData :: "crudWorld \<Rightarrow> user \<Rightarrow> payload" where
  "propertyData w u =
     [(''landlord_id'', JsString (uid u)),
      (''name'', formEntry w ''name''),
      (''address'', formEntry w ''address''),
      (''unit_number'', formEntryOrNull w ''unit_number''),
      (''rent_amount'', JsNumber (parseFloatOf w ''rent_amount'')),
      (''deposit_amount'', numberOrNull (parseFloatOf w ''deposit_amount'')),
      (''status'', formEntry w ''status'')]"

text \<open>
  \<open>handleSubmit\<close> of the properties form: an update when a property is being edited, an
  insert otherwise. It has no \<open>try\<close>: a rejected call leaves the handler.
\<close>

definition properties_handleSubmit :: "crudWorld \<Rightarrow> outcome" where
  "properties_handleSubmit w =
     (case getUser w of
        Rejected e \<Rightarrow> ([PreventDefault], Some e)
      | Resolved auth \<Rightarrow>
        (case user auth of
           None \<Rightarrow> ([PreventDefault], None)
         | Some u \<Rightarrow>
           (case editingProperty w of
              Some pid \<Rightarrow>
                (case writeResult w of
                   Rejected e \<Rightarrow>
                     ([PreventDefault,
                       DbUpdate ''properties'' (propertyData w u) (''id'', pid)], Some e)
                 | Resolved (Some err) \<Rightarrow>
                     ([PreventDefault,
                       DbUpdate ''properties'' (propertyData w u) (''id'', pid),
                       errorToast ''Error updating property'' (errorMessage err)], None)
                 | Resolved None \<Rightarrow>
                     ([PreventDefault,
                       DbUpdate ''properties'' (propertyData w u) (''id'', pid),
                       successToast ''Property updated successfully'',
                       SetOpen False,
                       SetEditingPropertyNull,
                       LoadProperties,
                       OnUpdate], None))
            | None \<Rightarrow>
                (case writeResult w of
                   Rejected e \<Rightarrow>
                     ([PreventDefault, DbInsert ''properties'' (propertyData w u)], Some e)
                 | Resolved (Some err) \<Rightarrow>
                     ([PreventDefault,
                       DbInsert ''properties'' (propertyData w u),
                       errorToast ''Error creating property'' (errorMessage err)], None)
                 | Resolved None \<Rightarrow>
                     ([PreventDefault,
                       DbInsert ''properties'' (propertyData w u),
                       successToast ''Property created successfully'',
                       SetOpen False,
                       LoadProperties,
                       OnUpdate], None)))))"

definition properties_handleDelete :: "crudWorld \<Rightarrow> string \<Rightarrow> outcome" where
  "properties_handleDelete w pid =
     (if \<not> confirmAnswer w
      then ([ConfirmPrompt ''Are you sure you want to delete this property?''], None)
      else
        (case writeResult w of
           Rejected e \<Rightarrow>
             ([ConfirmPrompt ''Are you sure you want to delete this property?'',
               DbDelete ''properties'' (''id'', pid)], Some e)
         | Resolved (Some err) \<Rightarrow>
             ([ConfirmPrompt ''Are you sure you want to delete this property?'',
               DbDelete ''properties'' (''id'', pid),
               errorToast ''Error deleting property'' (errorMessage err)], None)
         | Resolved None \<Rightarrow>
             ([ConfirmPrompt ''Are you sure you want to delete this property?'',
               DbDelete ''properties'' (''id'', pid),
               successToast ''Property deleted successfully'',
               LoadProperties,
               OnUpdate], None)))"

subsection \<open>LeasesSection\<close>

text \<open>
  The test of the tenant email against \<open>/^[^\s@]+@[^\s@]+\.[^\s@]+$/\<close>: the text
  splits at an \<open>@\<close> (position \<open>i\<close>) and a later dot (position \<open>j\<close>) into three parts,
  none empty, with no white space and no \<open>@\<close> in any.
\<close>

definition emailChar :: "char \<Rightarrow> bool" where
  "emailChar c = (\<not> isSpace c \<and> c \<noteq> CHR ''@'')"

definition emailRegexTest :: "string \<Rightarrow> bool" where
  "emailRegexTest s =
     list_ex (\<lambda>i. list_ex (\<lambda>j.
         0 < i \<and> i + 1 < j \<and> j + 1 < length s
         \<and> s ! i = CHR ''@'' \<and> s ! j = CHR ''.''
         \<and> list_all emailChar (take i s)
         \<and> list_all emailChar (take (j - (i + 1)) (drop (i + 1) s))
         \<and> list_all emailChar (drop (j + 1) s))
       [0..<length s]) [0..<length s]"

definition leaseData :: "crudWorld \<Rightarrow> user \<Rightarrow> string \<Rightarrow> number \<Rightarrow> number option \<Rightarrow> number \<Rightarrow> payload" where
  "leaseData w u tenantId rentAmount depositAmount paymentDueDay =
     [(''landlord_id'', JsString (uid u)),
      (''property_id'', formEntry w ''property_id''),
      (''tenant_id'', JsString tenantId),
      (''start_date'', formEntry w ''start_date''),
      (''end_date'', formEntry w ''end_date''),
      (''rent_amount'', JsNumber rentAmount),
      (''deposit_amount'', (case depositAmount of None \<Rightarrow> JsNull | Some d \<Rightarrow> JsNumber d)),
      (''payment_due_day'', JsNumber paymentDueDay),
      (''status'', formEntry w ''status'')]"

text \<open>
  \<open>const depositAmount = formData.get("deposit_amount") ? parseFloat(...) : null\<close>: the
  entry is truthy when it is present and not the empty text.
\<close>

definition depositAmountOf :: "crudWorld \<Rightarrow> number option" where
  "depositAmountOf w =
     (case formData w ''deposit_amount'' of
        None \<Rightarrow> None
      | Some v \<Rightarrow> if v = [] then None else Some (parseFloat w v))"

text \<open>
  The last part of the \<open>try\<close> block of the lease form's \<open>handleSubmit\<close>, from the
  parsing of the numbers on, for the user \<open>u\<close> and the tenant found.
\<close>

definition leases_validateAndInsert :: "crudWorld \<Rightarrow> user \<Rightarrow> string \<Rightarrow> outcome" where
  "leases_validateAndInsert w u tenantId =
     (let rentAmount = parseFloatOf w ''rent_amount'';
          depositAmount = depositAmountOf w;
          paymentDueDay = parseIntOf w ''payment_due_day''
      in
        if isNaN rentAmount \<or> numLe rentAmount 0
        then ([errorToast ''Error'' ''Please provide a valid rent amount''], None)
        else if (case depositAmount of None \<Rightarrow> False | Some d \<Rightarrow> isNaN d \<or> numLt d 0)
        then ([errorToast ''Error'' ''Please provide a valid deposit amount''], None)
        else if isNaN paymentDueDay \<or> numLt paymentDueDay 1 \<or> numGt paymentDueDay 31
        then ([errorToast ''Error'' ''Payment due day must be between 1 and 31''], None)
        else
          (case writeResult w of
             Rejected e \<Rightarrow>
               ([DbInsert ''leases''
                   (leaseData w u tenantId rentAmount depositAmount paymentDueDay)], Some e)
           | Resolved (Some err) \<Rightarrow>
               ([DbInsert ''leases''
                   (leaseData w u tenantId rentAmount depositAmount paymentDueDay),
                 ConsoleError ''Error creating lease:'',
                 errorToast ''Error creating lease'' ''Failed to create lease. Please try again.''],
                None)
           | Resolved None \<Rightarrow>
               ([DbInsert ''leases''
                   (leaseData w u tenantId rentAmount depositAmount paymentDueDay),
                 successToast ''Lease created successfully'',
                 SetOpen False,
                 SetTenantEmail [],
                 LoadLeases,
                 OnUpdate], None)))"

text \<open>The whole \<open>try\<close> block: the session, the email, the tenant lookup, then the rest.\<close>

definition leases_handleSubmit_try :: "crudWorld \<Rightarrow> outcome" where
  "leases_handleSubmit_try w =
     (case getUser w of
        Rejected e \<Rightarrow> ([], Some e)
      | Resolved auth \<Rightarrow>
        (case authError auth of
           Some e \<Rightarrow> ([], Some e)
         | None \<Rightarrow>
           (case user auth of
              None \<Rightarrow> ([errorToast ''Error'' ''You must be logged in''], None)
            | Some u \<Rightarrow>
                if tenantEmail w = [] \<or> \<not> emailRegexTest (tenantEmail w)
                then ([errorToast ''Error'' ''Please provide a valid tenant email''], None)
                else
                  (case findProfile w (tenantEmail w) of
                     Rejected e \<Rightarrow> ([], Some e)
                   | Resolved found \<Rightarrow>
                     (case (profileError found, profile found) of
                        (None, Some tenantId) \<Rightarrow> leases_validateAndInsert w u tenantId
                      | _ \<Rightarrow>
                          ([errorToast ''Error'' ''Tenant not found with this email''],
                           None))))))"

definition leases_handleSubmit :: "crudWorld \<Rightarrow> outcome" where
  "leases_handleSubmit w =
     (let r = tryCatch (leases_handleSubmit_try w)
                [ConsoleError ''Unexpected error creating lease:'',
                 errorToast ''Error'' ''An unexpected error occurred'']
      in (PreventDefault # fst r, snd r))"

definition leases_handleDelete_try :: "crudWorld \<Rightarrow> string \<Rightarrow> outcome" where
  "leases_handleDelete_try w lid =
     (case getUser w of
        Rejected e \<Rightarrow> ([], Some e)
      | Resolved auth \<Rightarrow>
        (case authError auth of
           Some e \<Rightarrow> ([], Some e)
         | None \<Rightarrow>
           (case user auth of
              None \<Rightarrow> ([errorToast ''Error'' ''You must be logged in''], None)
            | Some u \<Rightarrow>
              (case writeResult w of
                 Rejected e \<Rightarrow> ([DbDelete ''leases'' (''id'', lid)], Some e)
               | Resolved (Some err) \<Rightarrow>
                   ([DbDelete ''leases'' (''id'', lid),
                     ConsoleError ''Error deleting lease:'',
                     errorToast ''Error deleting lease''
                       ''Failed to delete lease. Please try again.''], None)
               | Resolved None \<Rightarrow>
                   ([DbDelete ''leases'' (''id'', lid),
                     successToast ''Lease deleted successfully'',
                     LoadLeases,
                     OnUpdate], None)))))"

definition leases_handleDelete :: "crudWorld \<Rightarrow> string \<Rightarrow> outcome" where
  "leases_handleDelete w lid =
     (if \<not> confirmAnswer w
      then ([ConfirmPrompt ''Are you sure you want to delete this lease?''], None)
      else
        (let r = tryCatch (leases_handleDelete_try w lid)
                   [ConsoleError ''Unexpected error deleting lease:'',
                    errorToast ''Error'' ''An unexpected error occurred'']
         in (ConfirmPrompt ''Are you sure you want to delete this lease?'' # fst r, snd r)))"

subsection \<open>PaymentsSection\<close>

definition paymentData :: "crudWorld \<Rightarrow> number \<Rightarrow> payload" where
  "paymentData w amt =
     [(''lease_id'', formEntry w ''lease_id''),
      (''amount'', JsNumber amt),
      (''due_date'', formEntry w ''due_date''),
      (''status'', JsString ''pending''),
      (''late_fee'', JsNumber (Num 0))]"

definition payments_handleSubmit_try :: "crudWorld \<Rightarrow> outcome" where
  "payments_handleSubmit_try w =
     (let amt = parseFloatOf w ''amount''
      in
        if isNaN amt \<or> numLe amt 0
        then ([errorToast ''Error'' ''Please provide a valid amount greater than 0''], None)
        else
          (case writeResult w of
             Rejected e \<Rightarrow> ([DbInsert ''rent_payments'' (paymentData w amt)], Some e)
           | Resolved (Some err) \<Rightarrow>
               ([DbInsert ''rent_payments'' (paymentData w amt),
                 ConsoleError ''Error creating payment:'',
                 errorToast ''Error creating payment''
                   ''Failed to create payment. Please try again.''], None)
           | Resolved None \<Rightarrow>
               ([DbInsert ''rent_payments'' (paymentData w amt),
                 successToast ''Payment record created successfully'',
                 SetOpen False,
                 LoadPayments,
                 OnUpdate], None)))"

definition payments_handleSubmit :: "crudWorld \<Rightarrow> outcome" where
  "payments_handleSubmit w =
     (let r = tryCatch (payments_handleSubmit_try w)
                [ConsoleError ''Unexpected error creating payment:'',
                 errorToast ''Error'' ''An unexpected error occurred'']
      in (PreventDefault # fst r, snd r))"

text \<open>
  \<open>markAsPaid\<close>: the update \<open>{ status: "paid", paid_date: new Date().toISOString() }\<close>
  of one payment.
\<close>

definition markAsPaid_try :: "crudWorld \<Rightarrow> string \<Rightarrow> outcome" where
  "markAsPaid_try w pid =
     (case getUser w of
        Rejected e \<Rightarrow> ([], Some e)
      | Resolved auth \<Rightarrow>
        (case authError auth of
           Some e \<Rightarrow> ([], Some e)
         | None \<Rightarrow>
           (case user auth of
              None \<Rightarrow> ([errorToast ''Error'' ''You must be logged in''], None)
            | Some u \<Rightarrow>
              (case writeResult w of
                 Rejected e \<Rightarrow>
                   ([DbUpdate ''rent_payments''
                       [(''status'', JsString ''paid''), (''paid_date'', JsString (now w))]
                       (''id'', pid)], Some e)
               | Resolved (Some err) \<Rightarrow>
                   ([DbUpdate ''rent_payments''
                       [(''status'', JsString ''paid''), (''paid_date'', JsString (now w))]
                       (''id'', pid),
                     ConsoleError ''Error updating payment:'',
                     errorToast ''Error updating payment''
                       ''Failed to update payment. Please try again.''], None)
               | Resolved None \<Rightarrow>
                   ([DbUpdate ''rent_payments''
                       [(''status'', JsString ''paid''), (''paid_date'', JsString (now w))]
                       (''id'', pid),
                     successToast ''Payment marked as paid'',
                     LoadPayments,
                     OnUpdate], None)))))"

definition markAsPaid :: "crudWorld \<Rightarrow> string \<Rightarrow> outcome" where
  "markAsPaid w pid =
     tryCatch (markAsPaid_try w pid)
       [ConsoleError ''Unexpected error updating payment:'',
        errorToast ''Error'' ''An unexpected error occurred'']"

subsection \<open>The mutations of the three sections\<close>

text \<open>
  The handlers that write: the properties form (an insert or an update), the deletion of
  a property, the lease form (an insert), the deletion of a lease, the payment form (an
  insert) and the marking of a payment as paid (an update); with, for each, the reload
  of the section's own list.
\<close>

datatype mutation =
    PropertiesSubmit
  | PropertiesDelete string
  | LeasesSubmit
  | LeasesDelete string
  | PaymentsSubmit
  | PaymentsMarkAsPaid string

fun runMutation :: "mutation \<Rightarrow> crudWorld \<Rightarrow> outcome" where
  "runMutation PropertiesSubmit w = properties_handleSubmit w"
| "runMutation (PropertiesDelete pid) w = properties_handleDelete w pid"
| "runMutation LeasesSubmit w = leases_handleSubmit w"
| "runMutation (LeasesDelete lid) w = leases_handleDelete w lid"
| "runMutation PaymentsSubmit w = payments_handleSubmit w"
| "runMutation (PaymentsMarkAsPaid pid) w = markAsPaid w pid"

fun localRefresh :: "mutation \<Rightarrow> effect" where
  "localRefresh PropertiesSubmit = LoadProperties"
| "localRefresh (PropertiesDelete pid) = LoadProperties"
| "localRefresh LeasesSubmit = LoadLeases"
| "localRefresh (LeasesDelete lid) = LoadLeases"
| "localRefresh PaymentsSubmit = LoadPayments"
| "localRefresh (PaymentsMarkAsPaid pid) = LoadPayments"

text \<open>
  The inputs on which a handler gets as far as its write. The session answers with a
  user (the properties form does not look at the session's error, the other handlers
  throw it); the deletion is confirmed; the lease form has a well-formed tenant email, a
  profile found without error, a rent that is a number and not at most 0, a deposit that
  is absent or a number not below 0, and a due day that is a number from 1 to 31; the
  payment form has an amount that is a number and not at most 0.
\<close>

definition hasUser :: "crudWorld \<Rightarrow> bool" where
  "hasUser w = (case getUser w of Rejected e \<Rightarrow> False | Resolved auth \<Rightarrow> user auth \<noteq> None)"

definition signedIn :: "crudWorld \<Rightarrow> bool" where
  "signedIn w =
     (case getUser w of
        Rejected e \<Rightarrow> False
      | Resolved auth \<Rightarrow> authError auth = None \<and> user auth \<noteq> None)"

definition tenantFound :: "crudWorld \<Rightarrow> bool" where
  "tenantFound w =
     (case findProfile w (tenantEmail w) of
        Rejected e \<Rightarrow> False
      | Resolved found \<Rightarrow> profileError found = None \<and> profile found \<noteq> None)"

definition leaseFieldsValid :: "crudWorld \<Rightarrow> bool" where
  "leaseFieldsValid w =
     (\<not> isNaN (parseFloatOf w ''rent_amount'') \<and> \<not> numLe (parseFloatOf w ''rent_amount'') 0
      \<and> (case depositAmountOf w of None \<Rightarrow> True | Some d \<Rightarrow> \<not> isNaN d \<and> \<not> numLt d 0)
      \<and> \<not> isNaN (parseIntOf w ''payment_due_day'')
      \<and> \<not> numLt (parseIntOf w ''payment_due_day'') 1
      \<and> \<not> numGt (parseIntOf w ''payment_due_day'') 31)"

fun reachesWrite :: "mutation \<Rightarrow> crudWorld \<Rightarrow> bool" where
  "reachesWrite PropertiesSubmit w = hasUser w"
| "reachesWrite (PropertiesDelete pid) w = confirmAnswer w"
| "reachesWrite LeasesSubmit w =
     (signedIn w \<and> tenantEmail w \<noteq> [] \<and> emailRegexTest (tenantEmail w)
      \<and> tenantFound w \<and> leaseFieldsValid w)"
| "reachesWrite (LeasesDelete lid) w = (confirmAnswer w \<and> signedIn w)"
| "reachesWrite PaymentsSubmit w =
     (\<not> isNaN (parseFloatOf w ''amount'') \<and> \<not> numLe (parseFloatOf w ''amount'') 0)"
| "reachesWrite (PaymentsMarkAsPaid pid) w = signedIn w"

subsection \<open>A sample submission of the lease form\<close>

text \<open>
  A signed-in landlord submits the lease form for a tenant whose profile exists; every
  field is valid and the database accepts the write. The stand-ins for \<open>parseFloat\<close>
  and \<open>parseInt\<close> read the few texts the samples use.
\<close>

definition sampleWorld :: crudWorld where
  "sampleWorld =
     \<lparr>getUser = Resolved \<lparr>user = Some (User ''landlord-1''), authError = None\<rparr>,
      confirmAnswer = True,
      formData = map_of
        [(''property_id'', ''property-7''), (''start_date'', ''2026-01-01''),
         (''end_date'', ''2026-12-31''), (''rent_amount'', ''1200''),
         (''deposit_amount'', []), (''payment_due_day'', ''1''), (''status'', ''active''),
         (''name'', ''Flat 7''), (''address'', ''1 High Street''), (''unit_number'', []),
         (''lease_id'', ''lease-3''), (''amount'', ''1200''), (''due_date'', ''2026-02-01'')],
      parseFloat = (\<lambda>t. if t = ''1200'' then Num 1200 else if t = ''0'' then Num 0
                         else if t = ''-5'' then Num (- 5) else NaN),
      parseInt = (\<lambda>t. if t = ''1'' then Num 1 else if t = ''32'' then Num 32
                       else if t = ''0'' then Num 0 else NaN),
      tenantEmail = ''t@x.io'',
      editingProperty = None,
      findProfile = (\<lambda>email. if email = ''t@x.io''
                       then Resolved \<lparr>profile = Some ''tenant-9'', profileError = None\<rparr>
                       else Resolved \<lparr>profile = None,
                                      profileError = Some (JsError ''PGRST116'' ''no rows'')\<rparr>),
      writeResult = Resolved None,
      now = ''2026-02-03T10:00:00.000Z''\<rparr>"

section \<open>Properties of the addition of numbers\<close>

lemma two_powr_int:
  "0 \<le> j \<Longrightarrow> 2 powr (real_of_int j) = real_of_int (2 ^ nat j)"
  by (simp add: powr_real_of_int)

lemma two_powr_neg:
  "2 powr (real_of_int (- k)) = 1 / 2 powr (real_of_int k)"
  by (simp add: powr_minus_divide)

lemma bitlen_floor_log:
  assumes "1 \<le> x"
  shows "bitlen \<lfloor>x\<rfloor> - 1 = \<lfloor>log 2 x\<rfloor>"
proof -
  let ?k = "\<lfloor>log 2 x\<rfloor>"
  from assms have xpos: "0 < x" by simp
  from assms have npos: "0 < \<lfloor>x\<rfloor>" by simp
  from assms have k0: "0 \<le> ?k" by simp
  from xpos have bounds: "2 powr ?k \<le> x \<and> x < 2 powr (?k + 1)"
    using floor_log_eq_powr_iff [of x 2 ?k] by simp
  from k0 have int_pow: "2 powr (real_of_int ?k) = real_of_int (2 ^ nat ?k)"
    by (rule two_powr_int)
  from bounds int_pow have "real_of_int (2 ^ nat ?k) \<le> x" by simp
  then have "2 ^ nat ?k \<le> \<lfloor>x\<rfloor>" by (simp only: le_floor_iff)
  then have lower: "2 powr ?k \<le> real_of_int \<lfloor>x\<rfloor>"
    using int_pow by (metis of_int_le_iff)
  have upper: "real_of_int \<lfloor>x\<rfloor> < 2 powr (?k + 1)"
    using bounds by linarith
  from npos lower upper have "\<lfloor>log 2 (real_of_int \<lfloor>x\<rfloor>)\<rfloor> = ?k"
    using floor_log_eq_powr_iff [of "real_of_int \<lfloor>x\<rfloor>" 2 ?k] by simp
  with npos show ?thesis by (simp add: bitlen_alt_def)
qed

lemma bitlen_ceiling_log:
  assumes "0 < x" and "x < 1"
  shows "- bitlen (\<lceil>1 / x\<rceil> - 1) = \<lfloor>log 2 x\<rfloor>"
proof -
  let ?m = "\<lceil>1 / x\<rceil> - 1"
  let ?j = "\<lfloor>log 2 (real_of_int ?m)\<rfloor>"
  from assms have "1 < 1 / x" by simp
  then have pos: "0 < ?m" by linarith
  then have rpos: "0 < real_of_int ?m" by simp
  from pos have "1 \<le> real_of_int ?m" by linarith
  then have j0: "0 \<le> ?j" by simp
  from rpos have bounds: "2 powr ?j \<le> real_of_int ?m \<and> real_of_int ?m < 2 powr (?j + 1)"
    using floor_log_eq_powr_iff [of "real_of_int ?m" 2 ?j] by simp
  from j0 have "0 \<le> ?j + 1" by linarith
  then have int_pow: "2 powr (real_of_int (?j + 1)) = real_of_int (2 ^ nat (?j + 1))"
    by (rule two_powr_int)
  from bounds int_pow have "real_of_int ?m < real_of_int (2 ^ nat (?j + 1))" by simp
  then have "?m < 2 ^ nat (?j + 1)" by (simp only: of_int_less_iff)
  then have "?m + 1 \<le> 2 ^ nat (?j + 1)" by simp
  then have "real_of_int (?m + 1) \<le> real_of_int (2 ^ nat (?j + 1))"
    by (simp only: of_int_le_iff)
  with int_pow have top: "real_of_int (?m + 1) \<le> 2 powr (?j + 1)" by simp
  have "1 / x \<le> real_of_int (?m + 1)"
    using ceiling_correct [of "1 / x"] by simp
  with top have above: "1 / x \<le> 2 powr (?j + 1)" by linarith
  have "real_of_int ?m < 1 / x"
    using ceiling_correct [of "1 / x"] by simp
  with bounds have below: "2 powr ?j < 1 / x" by linarith
  have P: "0 < 2 powr (real_of_int (?j + 1))" by simp
  from above assms(1) have "1 \<le> 2 powr (real_of_int (?j + 1)) * x"
    by (simp only: pos_divide_le_eq)
  then have "1 / 2 powr (real_of_int (?j + 1)) \<le> x"
    using P by (simp only: pos_divide_le_eq mult.commute)
  then have lower: "2 powr (real_of_int (- (?j + 1))) \<le> x"
    by (simp only: two_powr_neg)
  have Q: "0 < 2 powr (real_of_int ?j)" by simp
  from below assms(1) have "2 powr (real_of_int ?j) * x < 1"
    by (simp only: pos_less_divide_eq)
  then have "x < 1 / 2 powr (real_of_int ?j)"
    using Q by (simp only: pos_less_divide_eq mult.commute)
  then have "x < 2 powr (real_of_int (- ?j))"
    by (simp only: two_powr_neg)
  then have upper: "x < 2 powr (real_of_int (- (?j + 1)) + 1)"
    by simp
  from assms(1) lower upper have "\<lfloor>log 2 x\<rfloor> = - (?j + 1)"
    using floor_log_eq_powr_iff [of x 2 "- (?j + 1)"] by simp
  with pos show ?thesis by (simp add: bitlen_alt_def)
qed

text \<open>The exponent is the integer part of the binary logarithm.\<close>

lemma binaryExponent_floor_log:
  "0 < x \<Longrightarrow> binaryExponent x = \<lfloor>log 2 x\<rfloor>"
  using bitlen_floor_log [of x] bitlen_ceiling_log [of x]
  by (cases "1 \<le> x") (simp_all add: binaryExponent_def)

text \<open>
  Known sums: the amount of the spec's example is added exactly, and the sum of the
  numbers nearest to 0.1 and 0.2 is the number \<open>0.30000000000000004\<close>, which is not
  their exact sum.
\<close>

lemma addNumber_100_0: "addNumber 100 0 = 100" and addNumber_0_100: "addNumber 0 100 = 100"
  by code_simp+

lemma addNumber_tenth_fifth:
  "addNumber (3602879701896397 / 2 ^ 55) (3602879701896397 / 2 ^ 54) = 1351079888211149 / 2 ^ 52"
  by code_simp

section \<open>Properties of the statistics aggregation\<close>

lemma reducer_pending:
  "status p = ''pending'' \<or> status p = ''overdue'' \<Longrightarrow>
   reducer acc p = acc\<lparr>pendingPayments := pendingPayments acc + 1\<rparr>"
  by (simp add: reducer_def)

lemma reducer_paid:
  "status p = ''paid'' \<Longrightarrow>
   reducer acc p
     = acc\<lparr>totalRevenue :=
             addNumber (totalRevenue acc) (addNumber (amount p) (Number (late_fee p)))\<rparr>"
  by (simp add: reducer_def Number_def)

lemma reducer_other:
  "status p \<noteq> ''pending'' \<Longrightarrow> status p \<noteq> ''overdue'' \<Longrightarrow> status p \<noteq> ''paid'' \<Longrightarrow>
   reducer acc p = acc"
  by (simp add: reducer_def)

lemma foldl_reducer:
  "foldl reducer acc ps =
     \<lparr>pendingPayments = pendingPayments acc
        + length (filter (\<lambda>p. status p = ''pending'' \<or> status p = ''overdue'') ps),
      totalRevenue = foldl addNumber (totalRevenue acc)
        (map (\<lambda>p. addNumber (amount p) (Number (late_fee p)))
           (filter (\<lambda>p. status p = ''paid'') ps))\<rparr>"
proof (induction ps arbitrary: acc)
  case Nil
  show ?case by simp
next
  case (Cons p ps)
  consider (pending) "status p = ''pending'' \<or> status p = ''overdue''"
    | (paid) "status p = ''paid''"
    | (other) "status p \<noteq> ''pending''" "status p \<noteq> ''overdue''" "status p \<noteq> ''paid''"
    by blast
  then show ?case
  proof cases
    case pending
    then show ?thesis by (auto simp add: Cons.IH reducer_pending)
  next
    case paid
    then show ?thesis by (simp add: Cons.IH reducer_paid)
  next
    case other
    then show ?thesis by (simp add: Cons.IH reducer_other)
  qed
qed

lemma paymentStats_eq:
  "paymentStats d =
     \<lparr>pendingPayments
        = length (filter (\<lambda>p. status p = ''pending'' \<or> status p = ''overdue'') (or_empty d)),
      totalRevenue = foldl addNumber 0
        (map (\<lambda>p. addNumber (amount p) (Number (late_fee p)))
           (filter (\<lambda>p. status p = ''paid'') (or_empty d)))\<rparr>"
  by (simp add: paymentStats_def foldl_reducer)

lemma foldl_addNumber_exact:
  "noRounding s ps \<Longrightarrow>
   foldl addNumber s (map (\<lambda>p. addNumber (amount p) (Number (late_fee p))) ps)
     = s + (\<Sum>p\<leftarrow>ps. amount p + Number (late_fee p))"
proof (induction ps arbitrary: s)
  case Nil
  show ?case by simp
next
  case (Cons p ps)
  from Cons.prems have row: "addNumber (amount p) (Number (late_fee p))
      = amount p + Number (late_fee p)"
    and acc: "addNumber s (amount p + Number (late_fee p)) = s + (amount p + Number (late_fee p))"
    and rest: "noRounding (s + (amount p + Number (late_fee p))) ps"
    by simp_all
  from Cons.IH [OF rest] row acc show ?case by (simp add: add.assoc)
qed

lemma loadStats_try_success:
  assumes "getUser w = Resolved \<lparr>user = Some u, authError = None\<rparr>"
    and "propertiesQuery w = Resolved pr" and "error pr = None"
    and "leasesQuery w = Resolved lr" and "error lr = None"
    and "paymentsQuery w = Resolved pa" and "error pa = None"
  shows "loadStats_try w =
    ([SetStats \<lparr>pendingPayments = pendingPayments (paymentStats (data pa)),
                totalRevenue = totalRevenue (paymentStats (data pa)),
                properties = or_zero (count pr),
                activeLeases = or_zero (count lr)\<rparr>], None)"
  using assms by (simp add: loadStats_try_def Promise_all3_def)

lemma loadStats_try_failure:
  assumes "getUser w = Resolved \<lparr>user = Some u, authError = None\<rparr>"
    and "fetchFailed (propertiesQuery w) \<or> fetchFailed (leasesQuery w)
         \<or> fetchFailed (paymentsQuery w)"
  shows "\<exists>e. loadStats_try w = ([], Some e)"
  using assms
  by (auto simp add: loadStats_try_def Promise_all3_def fetchFailed_def
      split: awaited.splits option.splits)

text \<open>
  C4. When the user is signed in and one of the three queries of the aggregation (the
  property count, the active lease count, the payments) fails, by rejecting or by
  resolving with an error, \<open>loadStats\<close> logs the error and sets the four statistics to
  zero; and whatever happens, no error leaves \<open>loadStats\<close>.
\<close>

theorem loadStats_fails_soft:
  "snd (loadStats w) = None
   \<and> (getUser w = Resolved \<lparr>user = Some u, authError = None\<rparr>
        \<and> (fetchFailed (propertiesQuery w) \<or> fetchFailed (leasesQuery w)
             \<or> fetchFailed (paymentsQuery w))
      \<longrightarrow> loadStats w = ([ConsoleError ''Error loading stats:'', SetStats zeroStats], None)
          \<and> statsAfter s (fst (loadStats w))
            = \<lparr>pendingPayments = 0, totalRevenue = 0, properties = 0, activeLeases = 0\<rparr>)"
proof -
  have caught: "snd (loadStats w) = None"
    by (simp add: loadStats_def tryCatch_def loadStats_try_def Promise_all3_def
        split: awaited.splits option.splits prod.splits)
  have reset: "loadStats w = ([ConsoleError ''Error loading stats:'', SetStats zeroStats], None)"
    if "getUser w = Resolved \<lparr>user = Some u, authError = None\<rparr>"
      and "fetchFailed (propertiesQuery w) \<or> fetchFailed (leasesQuery w)
           \<or> fetchFailed (paymentsQuery w)"
  proof -
    from loadStats_try_failure [OF that] obtain e where "loadStats_try w = ([], Some e)" ..
    then show ?thesis by (simp add: loadStats_def tryCatch_def)
  qed
  from caught reset show ?thesis by (auto simp add: zeroStats_def)
qed

theorem loadStats_fails_soft_witness:
  "loadStats
     \<lparr>getUser = Resolved \<lparr>user = Some (User ''landlord-1''), authError = None\<rparr>,
      propertiesQuery = Resolved \<lparr>data = Some [(), ()], error = None, count = Some 2\<rparr>,
      leasesQuery = Resolved
        \<lparr>data = (None :: unit list option),
             error = Some (JsError ''PGRST301'' ''JWT expired''), count = None\<rparr>,
      paymentsQuery = Rejected (JsError [] ''Failed to fetch'')\<rparr>
     = ([ConsoleError ''Error loading stats:'', SetStats zeroStats], None)
   \<and> statsAfter \<lparr>pendingPayments = 4, totalRevenue = 2500, properties = 2, activeLeases = 1\<rparr>
       (fst (loadStats
         \<lparr>getUser = Resolved \<lparr>user = Some (User ''landlord-1''), authError = None\<rparr>,
          propertiesQuery = Resolved \<lparr>data = Some [(), ()], error = None, count = Some 2\<rparr>,
          leasesQuery = Resolved
            \<lparr>data = (None :: unit list option),
             error = Some (JsError ''PGRST301'' ''JWT expired''), count = None\<rparr>,
          paymentsQuery = Rejected (JsError [] ''Failed to fetch'')\<rparr>))
     = \<lparr>pendingPayments = 0, totalRevenue = 0, properties = 0, activeLeases = 0\<rparr>"
  using loadStats_fails_soft
    [where w = "\<lparr>getUser = Resolved \<lparr>user = Some (User ''landlord-1''), authError = None\<rparr>,
      propertiesQuery = Resolved \<lparr>data = Some [(), ()], error = None, count = Some 2\<rparr>,
      leasesQuery = Resolved
        \<lparr>data = (None :: unit list option),
             error = Some (JsError ''PGRST301'' ''JWT expired''), count = None\<rparr>,
      paymentsQuery = Rejected (JsError [] ''Failed to fetch'')\<rparr>"
     and u = "User ''landlord-1''"
     and s = "\<lparr>pendingPayments = 4, totalRevenue = 2500, properties = 2, activeLeases = 1\<rparr>"]
  by (simp add: fetchFailed_def zeroStats_def)

text \<open>
  C9. Every payment affects at most one statistic. A payment whose status is none of
  \<open>pending\<close>, \<open>overdue\<close> and \<open>paid\<close> (\<open>partial\<close>, for one) leaves the accumulator as
  it is, and the aggregation of a list is the same with or without it; and for any
  payment, one step of the reduction leaves the pending count or the revenue unchanged,
  as does adding the payment anywhere in a list.
\<close>

theorem payment_affects_at_most_one_statistic:
  "(status p \<noteq> ''pending'' \<and> status p \<noteq> ''overdue'' \<and> status p \<noteq> ''paid''
      \<longrightarrow> reducer acc p = acc
          \<and> paymentStats (Some (ps @ p # qs)) = paymentStats (Some (ps @ qs)))
   \<and> (status q = ''partial'' \<longrightarrow> reducer acc q = acc)
   \<and> (pendingPayments (reducer acc r) = pendingPayments acc
        \<or> totalRevenue (reducer acc r) = totalRevenue acc)
   \<and> (pendingPayments (paymentStats (Some (ps @ r # qs)))
          = pendingPayments (paymentStats (Some (ps @ qs)))
        \<or> totalRevenue (paymentStats (Some (ps @ r # qs)))
          = totalRevenue (paymentStats (Some (ps @ qs))))"
  by (simp add: paymentStats_eq or_empty_def reducer_def)

theorem payment_affects_at_most_one_statistic_witness:
  "reducer \<lparr>pendingPayments = 3, totalRevenue = 200\<rparr>
      \<lparr>amount = 50, late_fee = Some 5, status = ''partial''\<rparr>
     = \<lparr>pendingPayments = 3, totalRevenue = 200\<rparr>
   \<and> paymentStats (Some ([\<lparr>amount = 100, late_fee = Some 0, status = ''paid''\<rparr>]
        @ \<lparr>amount = 50, late_fee = Some 5, status = ''partial''\<rparr>
        # [\<lparr>amount = 150, late_fee = None, status = ''pending''\<rparr>]))
     = paymentStats (Some ([\<lparr>amount = 100, late_fee = Some 0, status = ''paid''\<rparr>]
        @ [\<lparr>amount = 150, late_fee = None, status = ''pending''\<rparr>]))"
  using payment_affects_at_most_one_statistic
    [where p = "\<lparr>amount = 50, late_fee = Some 5, status = ''partial''\<rparr>"
       and acc = "\<lparr>pendingPayments = 3, totalRevenue = 200\<rparr>"
       and ps = "[\<lparr>amount = 100, late_fee = Some 0, status = ''paid''\<rparr>]"
       and qs = "[\<lparr>amount = 150, late_fee = None, status = ''pending''\<rparr>]"]
  by simp

subsection \<open>Whole numbers are added exactly\<close>

lemma roundHalfEven_of_int: "roundHalfEven (real_of_int m) = m"
  by (simp add: roundHalfEven_def)

lemma roundDouble_of_int:
  assumes "\<bar>n\<bar> < 2 ^ 53"
  shows "roundDouble (real_of_int n) = real_of_int n"
proof (cases "n = 0")
  case True
  then show ?thesis by (simp add: roundDouble_def)
next
  case False
  let ?x = "real_of_int n"
  let ?e = "\<lfloor>log 2 \<bar>?x\<bar>\<rfloor>"
  from False have "1 \<le> \<bar>n\<bar>" by linarith
  then have "1 \<le> real_of_int \<bar>n\<bar>" by (simp only: of_int_1_le_iff)
  then have one: "1 \<le> \<bar>?x\<bar>" by (simp only: of_int_abs)
  then have pos: "0 < \<bar>?x\<bar>" by linarith
  from one have e0: "0 \<le> ?e" by simp
  from assms have "real_of_int \<bar>n\<bar> < real_of_int (2 ^ 53)" by (simp only: of_int_less_iff)
  then have "\<bar>?x\<bar> < 2 powr 53" by (simp add: of_int_abs)
  with pos have "log 2 \<bar>?x\<bar> < 53" by (simp add: log_less_iff)
  then have e52: "?e \<le> 52" by linarith
  have expo: "binaryExponent \<bar>?x\<bar> = ?e"
    using pos by (rule binaryExponent_floor_log)
  define k where "k = nat (52 - ?e)"
  from e0 e52 have ek: "?e - 52 = - int k" by (simp add: k_def)
  have scale: "(2::real) powi (?e - 52) = 1 / 2 ^ k"
    by (simp only: ek power_int_minus power_int_of_nat) (simp add: field_simps)
  from e0 have m: "max ?e (- 1022) = ?e" by simp
  have "?x / (1 / 2 ^ k) = real_of_int (n * 2 ^ k)" by simp
  then have "roundHalfEven (?x / (1 / 2 ^ k)) = n * 2 ^ k"
    by (simp only: roundHalfEven_of_int)
  with False expo m scale show ?thesis
    by (simp add: roundDouble_def Let_def)
qed


lemma roundDouble_whole:
  assumes "x \<in> \<int>" and "\<bar>x\<bar> < 2 ^ 53"
  shows "roundDouble x = x"
proof -
  from assms(1) obtain n where n: "x = real_of_int n" by (rule Ints_cases)
  with assms(2) have "real_of_int \<bar>n\<bar> < real_of_int (2 ^ 53)" by simp
  then have "\<bar>n\<bar> < 2 ^ 53" by (simp only: of_int_less_iff)
  then show ?thesis unfolding n by (rule roundDouble_of_int)
qed

lemma noRounding_whole:
  assumes "\<forall>p \<in> set ps. amount p \<in> \<int> \<and> Number (late_fee p) \<in> \<int>
             \<and> 0 \<le> amount p \<and> 0 \<le> Number (late_fee p)"
    and "s \<in> \<int>" and "0 \<le> s"
    and "s + (\<Sum>p\<leftarrow>ps. amount p + Number (late_fee p)) < 2 ^ 53"
  shows "noRounding s ps"
  using assms
proof (induction ps arbitrary: s)
  case Nil
  show ?case by simp
next
  case (Cons p ps)
  let ?r = "amount p + Number (late_fee p)"
  let ?rest = "\<Sum>q\<leftarrow>ps. amount q + Number (late_fee q)"
  from Cons.prems(1) have whole: "amount p \<in> \<int>" "Number (late_fee p) \<in> \<int>"
    and nonneg: "0 \<le> amount p" "0 \<le> Number (late_fee p)"
    and others: "\<forall>q \<in> set ps. amount q \<in> \<int> \<and> Number (late_fee q) \<in> \<int>
             \<and> 0 \<le> amount q \<and> 0 \<le> Number (late_fee q)"
    by simp_all
  from others have rest0: "0 \<le> ?rest" by (intro sum_list_nonneg) auto
  from Cons.prems(4) have bound: "s + ?r + ?rest < 2 ^ 53" by (simp add: add.assoc)
  from whole have r_whole: "?r \<in> \<int>" by (rule Ints_add)
  from nonneg have r0: "0 \<le> ?r" by simp
  from r0 rest0 bound Cons.prems(3) have "\<bar>?r\<bar> < 2 ^ 53" by linarith
  with r_whole have row: "addNumber (amount p) (Number (late_fee p)) = ?r"
    by (simp add: addNumber_def roundDouble_whole)
  from Cons.prems(2) r_whole have sr_whole: "s + ?r \<in> \<int>" by (rule Ints_add)
  from r0 rest0 bound Cons.prems(3) have "\<bar>s + ?r\<bar> < 2 ^ 53" by linarith
  with sr_whole have acc: "addNumber s ?r = s + ?r"
    by (simp add: addNumber_def roundDouble_whole)
  from Cons.prems(3) r0 have sr0: "0 \<le> s + ?r" by simp
  from Cons.IH [OF others sr_whole sr0 bound] row acc show ?case by simp
qed

text \<open>
  C1 (as amended). For any list of payments the aggregation returns as
  \<open>pendingPayments\<close> the number of payments whose status is \<open>pending\<close> or \<open>overdue\<close>,
  and as \<open>totalRevenue\<close> the result of adding \<open>amount + late_fee\<close> (a \<open>null\<close> late fee
  counting as 0) of exactly the payments whose status is \<open>paid\<close>, in row order, with
  the addition of numbers, which rounds. Where no addition on the way rounds, that result
  is the exact sum; no addition rounds where the amounts and late fees of the paid
  payments are whole numbers, none negative, with a sum below \<open>2^53\<close>. So it is for the
  payments \<open>{100, paid, late_fee 0}\<close> and \<open>{150, pending}\<close>, which give 1 and 100.
  When the session and the three queries succeed, \<open>loadStats\<close> stores these two
  values, with the two counts, as the statistics.
\<close>

theorem payment_aggregation_in_row_order:
  "pendingPayments (paymentStats (Some ps))
     = length (filter (\<lambda>p. status p = ''pending'' \<or> status p = ''overdue'') ps)
   \<and> totalRevenue (paymentStats (Some ps))
     = foldl addNumber 0
         (map (\<lambda>p. addNumber (amount p) (Number (late_fee p)))
            (filter (\<lambda>p. status p = ''paid'') ps))
   \<and> (noRounding 0 (filter (\<lambda>p. status p = ''paid'') ps)
        \<longrightarrow> totalRevenue (paymentStats (Some ps))
            = (\<Sum>p\<leftarrow>filter (\<lambda>p. status p = ''paid'') ps. amount p + Number (late_fee p)))
   \<and> ((\<forall>p \<in> set (filter (\<lambda>p. status p = ''paid'') ps).
            amount p \<in> \<int> \<and> Number (late_fee p) \<in> \<int>
            \<and> 0 \<le> amount p \<and> 0 \<le> Number (late_fee p))
        \<and> (\<Sum>p\<leftarrow>filter (\<lambda>p. status p = ''paid'') ps. amount p + Number (late_fee p)) < 2 ^ 53
        \<longrightarrow> totalRevenue (paymentStats (Some ps))
            = (\<Sum>p\<leftarrow>filter (\<lambda>p. status p = ''paid'') ps. amount p + Number (late_fee p)))
   \<and> paymentStats (Some [\<lparr>amount = 100, late_fee = Some 0, status = ''paid''\<rparr>,
                         \<lparr>amount = 150, late_fee = f, status = ''pending''\<rparr>])
     = \<lparr>pendingPayments = 1, totalRevenue = 100\<rparr>
   \<and> (getUser w = Resolved \<lparr>user = Some u, authError = None\<rparr>
        \<and> propertiesQuery w = Resolved pr \<and> error pr = None
        \<and> leasesQuery w = Resolved lr \<and> error lr = None
        \<and> paymentsQuery w = Resolved \<lparr>data = Some ps, error = None, count = c\<rparr>
      \<longrightarrow> loadStats w =
          ([SetStats
             \<lparr>pendingPayments
                = length (filter (\<lambda>p. status p = ''pending'' \<or> status p = ''overdue'') ps),
              totalRevenue
                = foldl addNumber 0
                    (map (\<lambda>p. addNumber (amount p) (Number (late_fee p)))
                       (filter (\<lambda>p. status p = ''paid'') ps)),
              properties = or_zero (count pr),
              activeLeases = or_zero (count lr)\<rparr>], None))"
proof -
  have general: "paymentStats (Some ps) =
     \<lparr>pendingPayments
        = length (filter (\<lambda>p. status p = ''pending'' \<or> status p = ''overdue'') ps),
      totalRevenue
        = foldl addNumber 0
            (map (\<lambda>p. addNumber (amount p) (Number (late_fee p)))
               (filter (\<lambda>p. status p = ''paid'') ps))\<rparr>"
    by (simp add: paymentStats_eq or_empty_def)
  have exact: "totalRevenue (paymentStats (Some ps))
      = (\<Sum>p\<leftarrow>filter (\<lambda>p. status p = ''paid'') ps. amount p + Number (late_fee p))"
    if "noRounding 0 (filter (\<lambda>p. status p = ''paid'') ps)"
    using foldl_addNumber_exact [OF that] by (simp add: general)
  have whole: "totalRevenue (paymentStats (Some ps))
      = (\<Sum>p\<leftarrow>filter (\<lambda>p. status p = ''paid'') ps. amount p + Number (late_fee p))"
    if "\<forall>p \<in> set (filter (\<lambda>p. status p = ''paid'') ps).
            amount p \<in> \<int> \<and> Number (late_fee p) \<in> \<int>
            \<and> 0 \<le> amount p \<and> 0 \<le> Number (late_fee p)"
      and "(\<Sum>p\<leftarrow>filter (\<lambda>p. status p = ''paid'') ps. amount p + Number (late_fee p)) < 2 ^ 53"
  proof -
    from that have "noRounding 0 (filter (\<lambda>p. status p = ''paid'') ps)"
      by (intro noRounding_whole) simp_all
    then show ?thesis by (rule exact)
  qed
  have example: "paymentStats (Some [\<lparr>amount = 100, late_fee = Some 0, status = ''paid''\<rparr>,
                         \<lparr>amount = 150, late_fee = f, status = ''pending''\<rparr>])
     = \<lparr>pendingPayments = 1, totalRevenue = 100\<rparr>"
    by (simp add: paymentStats_eq or_empty_def Number_def addNumber_100_0 addNumber_0_100)
  have run: "loadStats w =
          ([SetStats
             \<lparr>pendingPayments
                = length (filter (\<lambda>p. status p = ''pending'' \<or> status p = ''overdue'') ps),
              totalRevenue
                = foldl addNumber 0
                    (map (\<lambda>p. addNumber (amount p) (Number (late_fee p)))
                       (filter (\<lambda>p. status p = ''paid'') ps)),
              properties = or_zero (count pr),
              activeLeases = or_zero (count lr)\<rparr>], None)"
    if "getUser w = Resolved \<lparr>user = Some u, authError = None\<rparr>"
      and "propertiesQuery w = Resolved pr" and "error pr = None"
      and "leasesQuery w = Resolved lr" and "error lr = None"
      and "paymentsQuery w = Resolved \<lparr>data = Some ps, error = None, count = c\<rparr>"
    using loadStats_try_success [OF that(1-5), of "\<lparr>data = Some ps, error = None, count = c\<rparr>"] that(6)
    by (simp add: loadStats_def tryCatch_def general)
  from general have counted: "pendingPayments (paymentStats (Some ps))
      = length (filter (\<lambda>p. status p = ''pending'' \<or> status p = ''overdue'') ps)"
    by simp
  from general have added: "totalRevenue (paymentStats (Some ps))
      = foldl addNumber 0
          (map (\<lambda>p. addNumber (amount p) (Number (late_fee p)))
             (filter (\<lambda>p. status p = ''paid'') ps))"
    by simp
  from counted added exact whole example run show ?thesis by blast
qed

theorem payment_aggregation_in_row_order_witness:
  "loadStats
     \<lparr>getUser = Resolved \<lparr>user = Some (User ''landlord-1''), authError = None\<rparr>,
      propertiesQuery = Resolved \<lparr>data = Some [(), ()], error = None, count = Some 2\<rparr>,
      leasesQuery = Resolved \<lparr>data = Some [()], error = None, count = Some 1\<rparr>,
      paymentsQuery = Resolved
        \<lparr>data = Some [\<lparr>amount = 100, late_fee = Some 0, status = ''paid''\<rparr>,
                      \<lparr>amount = 150, late_fee = None, status = ''pending''\<rparr>],
         error = None, count = None\<rparr>\<rparr>
   = ([SetStats \<lparr>pendingPayments = 1, totalRevenue = 100, properties = 2, activeLeases = 1\<rparr>],
      None)
   \<and> totalRevenue (paymentStats (Some
        [\<lparr>amount = 2401 / 2, late_fee = Some 25, status = ''paid''\<rparr>,
         \<lparr>amount = 150, late_fee = None, status = ''overdue''\<rparr>,
         \<lparr>amount = 800, late_fee = None, status = ''paid''\<rparr>]))
     = 4051 / 2
   \<and> totalRevenue (paymentStats (Some
        [\<lparr>amount = 950, late_fee = Some 50, status = ''paid''\<rparr>,
         \<lparr>amount = 1200, late_fee = None, status = ''paid''\<rparr>]))
     = 2200"
proof -
  have quiet: "noRounding 0
      (filter (\<lambda>p. status p = ''paid'')
        [\<lparr>amount = 2401 / 2, late_fee = Some 25, status = ''paid''\<rparr>,
         \<lparr>amount = 150, late_fee = None, status = ''overdue''\<rparr>,
         \<lparr>amount = 800, late_fee = None, status = ''paid''\<rparr>])"
    by code_simp
  from payment_aggregation_in_row_order
    [where w = "\<lparr>getUser = Resolved \<lparr>user = Some (User ''landlord-1''), authError = None\<rparr>,
      propertiesQuery = Resolved \<lparr>data = Some [(), ()], error = None, count = Some 2\<rparr>,
      leasesQuery = Resolved \<lparr>data = Some [()], error = None, count = Some 1\<rparr>,
      paymentsQuery = Resolved
        \<lparr>data = Some [\<lparr>amount = 100, late_fee = Some 0, status = ''paid''\<rparr>,
                      \<lparr>amount = 150, late_fee = None, status = ''pending''\<rparr>],
         error = None, count = None\<rparr>\<rparr>"
     and u = "User ''landlord-1''"
     and pr = "\<lparr>data = Some [(), ()], error = None, count = Some 2\<rparr>"
     and lr = "\<lparr>data = Some [()], error = None, count = Some 1\<rparr>"
     and ps = "[\<lparr>amount = 100, late_fee = Some 0, status = ''paid''\<rparr>,
                \<lparr>amount = 150, late_fee = None, status = ''pending''\<rparr>]"
     and c = None]
  have first: "loadStats
     \<lparr>getUser = Resolved \<lparr>user = Some (User ''landlord-1''), authError = None\<rparr>,
      propertiesQuery = Resolved \<lparr>data = Some [(), ()], error = None, count = Some 2\<rparr>,
      leasesQuery = Resolved \<lparr>data = Some [()], error = None, count = Some 1\<rparr>,
      paymentsQuery = Resolved
        \<lparr>data = Some [\<lparr>amount = 100, late_fee = Some 0, status = ''paid''\<rparr>,
                      \<lparr>amount = 150, late_fee = None, status = ''pending''\<rparr>],
         error = None, count = None\<rparr>\<rparr>
   = ([SetStats \<lparr>pendingPayments = 1, totalRevenue = 100, properties = 2, activeLeases = 1\<rparr>],
      None)"
    by (simp add: or_zero_def Number_def addNumber_100_0 addNumber_0_100)
  from payment_aggregation_in_row_order
    [where ps = "[\<lparr>amount = 2401 / 2, late_fee = Some 25, status = ''paid''\<rparr>,
         \<lparr>amount = 150, late_fee = None, status = ''overdue''\<rparr>,
         \<lparr>amount = 800, late_fee = None, status = ''paid''\<rparr>]",
     THEN conjunct2, THEN conjunct2, THEN conjunct1, rule_format, OF quiet]
  have second: "totalRevenue (paymentStats (Some
        [\<lparr>amount = 2401 / 2, late_fee = Some 25, status = ''paid''\<rparr>,
         \<lparr>amount = 150, late_fee = None, status = ''overdue''\<rparr>,
         \<lparr>amount = 800, late_fee = None, status = ''paid''\<rparr>]))
     = 4051 / 2"
    by (simp add: Number_def)
  from payment_aggregation_in_row_order
    [where ps = "[\<lparr>amount = 950, late_fee = Some 50, status = ''paid''\<rparr>,
         \<lparr>amount = 1200, late_fee = None, status = ''paid''\<rparr>]",
     THEN conjunct2, THEN conjunct2, THEN conjunct2, THEN conjunct1]
  have third: "totalRevenue (paymentStats (Some
        [\<lparr>amount = 950, late_fee = Some 50, status = ''paid''\<rparr>,
         \<lparr>amount = 1200, late_fee = None, status = ''paid''\<rparr>]))
     = 2200"
    by (simp add: Number_def)
  from first second third show ?thesis by blast
qed

text \<open>
  With the exact sum in place of the rounded one the statement fails: the one paid
  payment with amount 0.1 and late fee 0.2 (the numbers nearest to them, as the client
  delivers them) gives the total \<open>0.30000000000000004\<close>, which is not the sum of the
  two numbers.
\<close>

theorem payment_aggregation_rounds:
  "totalRevenue (paymentStats (Some
      [\<lparr>amount = 3602879701896397 / 2 ^ 55,
        late_fee = Some (3602879701896397 / 2 ^ 54),
        status = ''paid''\<rparr>]))
     = 1351079888211149 / 2 ^ 52
   \<and> totalRevenue (paymentStats (Some
      [\<lparr>amount = 3602879701896397 / 2 ^ 55,
        late_fee = Some (3602879701896397 / 2 ^ 54),
        status = ''paid''\<rparr>]))
     \<noteq> 3602879701896397 / 2 ^ 55 + 3602879701896397 / 2 ^ 54"
proof -
  have total: "totalRevenue (paymentStats (Some
      [\<lparr>amount = 3602879701896397 / 2 ^ 55,
        late_fee = Some (3602879701896397 / 2 ^ 54),
        status = ''paid''\<rparr>]))
     = 1351079888211149 / 2 ^ 52"
    by code_simp
  have apart: "(1351079888211149 / 2 ^ 52 :: real)
      \<noteq> 3602879701896397 / 2 ^ 55 + 3602879701896397 / 2 ^ 54"
    by simp
  from total apart show ?thesis by simp
qed

section \<open>Properties of the catalog of available properties\<close>

lemma pageStep_nonneg: "0 \<le> p \<Longrightarrow> 0 \<le> pageStep p a"
  by (cases a) (simp_all add: handlePrevPage_def handleNextPage_def)

lemma foldl_pageStep_nonneg: "0 \<le> p \<Longrightarrow> 0 \<le> foldl pageStep p actions"
proof (induction actions arbitrary: p)
  case Nil
  then show ?case by simp
next
  case (Cons a actions)
  from Cons.prems have "0 \<le> pageStep p a" by (rule pageStep_nonneg)
  then show ?case by (simp add: Cons.IH)
qed

lemma pageIndexAfter_nonneg: "0 \<le> pageIndexAfter actions"
  by (simp add: pageIndexAfter_def foldl_pageStep_nonneg)

text \<open>
  C2. For every page index \<open>p\<close> the catalog reader asks for the rows of \<open>properties\<close>
  whose status is \<open>available\<close>, ordered by \<open>created_at\<close> descending, in the inclusive
  range from \<open>p * 12\<close> to \<open>p * 12 + 11\<close>: offset \<open>p * 12\<close>, limit 12, that is the rows
  of the half-open range from \<open>p * 12\<close> to \<open>p * 12 + 12\<close>.
\<close>

theorem catalog_request_offset_limit:
  "queryFn p =
     \<lparr>fromTable = ''properties'',
      selectColumns = ''id, name, address, unit_number, landlord_id, created_at, rent_amount'',
      eqFilters = [(''status'', ''available'')],
      orderBy = Some (''created_at'', False),
      rowRange = Some (p * 12, p * 12 + 11)\<rparr>
   \<and> offset p = p * 12
   \<and> rangeOffset (p * 12, p * 12 + 11) = p * 12
   \<and> rangeLimit (p * 12, p * 12 + 11) = 12
   \<and> rangeRows (p * 12, p * 12 + 11) = {p * 12 ..< p * 12 + 12}"
  by (auto simp add: queryFn_def rangeQ_def orderQ_def eqQ_def selectQ_def fromTableQ_def
      offset_def PAGE_SIZE_def rangeOffset_def rangeLimit_def rangeRows_def)

theorem catalog_request_offset_limit_witness:
  "rowRange (queryFn 2) = Some (24, 35) \<and> rangeLimit (24, 35) = 12
   \<and> rangeRows (24, 35) = {24 ..< 36}"
  using catalog_request_offset_limit [of 2] by simp

text \<open>
  C3. For a fetched page, the flag \<open>hasNextPage\<close> is true exactly when the page has 12
  rows. After any sequence of clicks, \<open>hasPrevPage\<close> is false exactly when the page
  index is 0, and where the component renders the page buttons, the previous-page button
  is disabled exactly when the page index is 0 and the next-page button exactly when
  \<open>hasNextPage\<close> is false.
\<close>

theorem catalog_paging_controls:
  "(hasNextPage (Some rows) \<longleftrightarrow> length rows = 12)
   \<and> (\<not> hasPrevPage (pageIndexAfter actions) \<longleftrightarrow> pageIndexAfter actions = 0)
   \<and> (render (pageIndexAfter actions) (Some rows) isLoading hasError
          = PropertyGrid shown prevOff nextOff
        \<longrightarrow> (prevOff \<longleftrightarrow> pageIndexAfter actions = 0)
            \<and> (nextOff \<longleftrightarrow> \<not> hasNextPage (Some rows)))"
proof -
  have flag: "hasNextPage (Some rows) \<longleftrightarrow> length rows = 12"
    by (simp add: hasNextPage_def PAGE_SIZE_def)
  have prev: "\<not> hasPrevPage (pageIndexAfter actions) \<longleftrightarrow> pageIndexAfter actions = 0"
    using pageIndexAfter_nonneg [of actions] by (auto simp add: hasPrevPage_def)
  have buttons: "(prevOff \<longleftrightarrow> pageIndexAfter actions = 0)
      \<and> (nextOff \<longleftrightarrow> \<not> hasNextPage (Some rows))"
    if "render (pageIndexAfter actions) (Some rows) isLoading hasError
          = PropertyGrid shown prevOff nextOff"
    using that prev by (auto simp add: render_def split: if_splits)
  from flag prev buttons show ?thesis by blast
qed

theorem catalog_paging_controls_witness:
  "hasNextPage (Some (replicate 12 ()))
   \<and> \<not> hasNextPage (Some (replicate 5 ()))
   \<and> render (pageIndexAfter [NextPage, PrevPage]) (Some (replicate 12 ())) False False
       = PropertyGrid (replicate 12 ()) True False
   \<and> render (pageIndexAfter [NextPage]) (Some (replicate 5 ())) False False
       = PropertyGrid (replicate 5 ()) False True"
proof -
  have full: "render (pageIndexAfter [NextPage, PrevPage]) (Some (replicate 12 ())) False False
       = PropertyGrid (replicate 12 ()) True False"
    by (simp add: render_def pageIndexAfter_def handleNextPage_def handlePrevPage_def
        hasPrevPage_def hasNextPage_def PAGE_SIZE_def)
  have short: "render (pageIndexAfter [NextPage]) (Some (replicate 5 ())) False False
       = PropertyGrid (replicate 5 ()) False True"
    by (simp add: render_def pageIndexAfter_def handleNextPage_def handlePrevPage_def
        hasPrevPage_def hasNextPage_def PAGE_SIZE_def)
  from catalog_paging_controls
    [where rows = "replicate 12 ()" and actions = "[NextPage, PrevPage]"
       and isLoading = False and hasError = False
       and shown = "replicate 12 ()" and prevOff = True and nextOff = False]
    catalog_paging_controls
    [where rows = "replicate 5 ()" and actions = "[NextPage]"
       and isLoading = False and hasError = False
       and shown = "replicate 5 ()" and prevOff = False and nextOff = True]
    full short
  show ?thesis by simp
qed

text \<open>
  C10. The page index is never negative: it starts at 0, the next-page action adds 1,
  the previous-page action takes \<open>p\<close> to \<open>max 0 (p - 1)\<close> and so leaves 0 at 0, and
  after any sequence of the two actions the index is at least 0.
\<close>

theorem page_index_never_negative:
  "0 \<le> pageIndexAfter actions
   \<and> pageIndexAfter [] = 0
   \<and> pageIndexAfter (actions @ [NextPage]) = pageIndexAfter actions + 1
   \<and> pageIndexAfter (actions @ [PrevPage]) = max 0 (pageIndexAfter actions - 1)
   \<and> handlePrevPage 0 = 0
   \<and> (0 \<le> p \<longrightarrow> 0 \<le> handlePrevPage p \<and> 0 \<le> handleNextPage p)"
  using pageIndexAfter_nonneg [of actions]
  by (simp add: pageIndexAfter_def handlePrevPage_def handleNextPage_def)

theorem page_index_never_negative_witness:
  "pageIndexAfter [PrevPage, NextPage, NextPage, PrevPage, PrevPage, PrevPage] = 0
   \<and> pageIndexAfter ([PrevPage, NextPage, NextPage, PrevPage, PrevPage, PrevPage] @ [PrevPage]) = 0
   \<and> pageIndexAfter ([PrevPage, NextPage, NextPage, PrevPage, PrevPage, PrevPage] @ [NextPage]) = 1
   \<and> handlePrevPage 0 = 0 \<and> handleNextPage 0 = 1"
proof -
  have here: "pageIndexAfter [PrevPage, NextPage, NextPage, PrevPage, PrevPage, PrevPage] = 0"
    by (simp add: pageIndexAfter_def handlePrevPage_def handleNextPage_def)
  from page_index_never_negative
    [where actions = "[PrevPage, NextPage, NextPage, PrevPage, PrevPage, PrevPage]" and p = 0]
    here
  show ?thesis by (simp add: handleNextPage_def)
qed

section \<open>Properties of the message dialog\<close>

lemma trim_no_outer_space:
  assumes "m \<noteq> []" and "\<not> isSpace (hd m)" and "\<not> isSpace (last m)"
  shows "trim m = m"
proof -
  from assms(1,2) have leading: "dropWhile isSpace m = m"
    by (simp add: dropWhile_eq_self_iff)
  from assms(1,3) have trailing: "dropWhile isSpace (rev m) = rev m"
    by (simp add: dropWhile_eq_self_iff hd_rev)
  show ?thesis by (simp add: trim_def leading trailing)
qed

lemma contact_invalid_no_effect:
  "\<not> isValid (message w) \<Longrightarrow> contact_handleSubmit w = ([PreventDefault], None)"
  by (simp add: contact_handleSubmit_def)

lemma contact_insert_attempted:
  assumes "isValid (message w)" and "\<not> isSubmitting w"
    and "getUser w = Resolved \<lparr>user = Some u, authError = None\<rparr>"
  shows "\<exists>rest. fst (contact_handleSubmit w)
           = [PreventDefault, SetIsSubmitting True, DbInsert ''messages'' (messagePayload w u)] @ rest"
  using assms
  by (cases "insertResult w")
     (auto simp add: contact_handleSubmit_def contact_handleSubmit_try_def tryCatch_def Let_def
       split: option.splits)

lemma contact_insert_failed:
  assumes "isValid (message w)" and "\<not> isSubmitting w"
    and "getUser w = Resolved \<lparr>user = Some u, authError = None\<rparr>"
    and "insertResult w = Resolved (Some e)"
  shows "contact_handleSubmit w =
           ([PreventDefault, SetIsSubmitting True,
             DbInsert ''messages'' (messagePayload w u),
             ShowToast (if code e = ''42501'' then permissionDeniedToast else sendFailedToast),
             SetIsSubmitting False, SetIsSubmitting False], None)"
  using assms
  by (simp add: contact_handleSubmit_def contact_handleSubmit_try_def tryCatch_def Let_def)

lemma contact_insert_rejected:
  assumes "isValid (message w)" and "\<not> isSubmitting w"
    and "getUser w = Resolved \<lparr>user = Some u, authError = None\<rparr>"
    and "insertResult w = Rejected e"
  shows "contact_handleSubmit w =
           ([PreventDefault, SetIsSubmitting True,
             DbInsert ''messages'' (messagePayload w u),
             ShowToast \<lparr>title = ''Failed to send message'',
                        description = Some ''An unexpected error occurred.'',
                        variant = Destructive\<rparr>,
             SetIsSubmitting False], None)"
  using assms
  by (simp add: contact_handleSubmit_def contact_handleSubmit_try_def tryCatch_def Let_def)

lemma contact_writes_at_most_once:
  "length (filter isWrite (fst (contact_handleSubmit w))) \<le> 1"
  by (simp add: contact_handleSubmit_def contact_handleSubmit_try_def tryCatch_def Let_def
      split: awaited.splits option.splits prod.splits)

text \<open>
  C6. The message is valid exactly when its trimmed length is between 1 and 500. A
  message that is empty after trimming, or longer than 500 characters after trimming, is
  rejected: the submit handler does nothing but cancel the form's default action, so it
  sends no insert. A message whose trimmed length is exactly 500 is valid (so is a
  message of exactly 500 characters that neither starts nor ends with white space), and
  for a signed-in user, with no submission under way, the handler then sends the insert
  of the trimmed message.
\<close>

theorem message_valid_between_1_and_500:
  "(isValid (message w) \<longleftrightarrow> 1 \<le> length (trim (message w)) \<and> length (trim (message w)) \<le> 500)
   \<and> (trim (message w) = [] \<or> length (trim (message w)) > 500
        \<longrightarrow> \<not> isValid (message w)
            \<and> contact_handleSubmit w = ([PreventDefault], None)
            \<and> filter isWrite (fst (contact_handleSubmit w)) = [])
   \<and> (length (trim (message w)) = 500 \<longrightarrow> isValid (message w))
   \<and> (length (message w) = 500 \<and> \<not> isSpace (hd (message w)) \<and> \<not> isSpace (last (message w))
        \<longrightarrow> isValid (message w))
   \<and> (isValid (message w) \<and> \<not> isSubmitting w
        \<and> getUser w = Resolved \<lparr>user = Some u, authError = None\<rparr>
        \<longrightarrow> (\<exists>rest. fst (contact_handleSubmit w)
              = [PreventDefault, SetIsSubmitting True,
                 DbInsert ''messages''
                   [(''property_id'', JsString (propertyId w)),
                    (''landlord_id'', JsString (landlordId w)),
                    (''sender_id'', JsString (uid u)),
                    (''message'', JsString (trim (message w)))]] @ rest))"
proof -
  have valid: "isValid (message w)
      \<longleftrightarrow> 1 \<le> length (trim (message w)) \<and> length (trim (message w)) \<le> 500"
    by (simp add: isValid_def trimmedMessage_def)
  have invalid: "\<not> isValid (message w)
            \<and> contact_handleSubmit w = ([PreventDefault], None)
            \<and> filter isWrite (fst (contact_handleSubmit w)) = []"
    if "trim (message w) = [] \<or> length (trim (message w)) > 500"
  proof -
    from that have "\<not> isValid (message w)" by (auto simp add: valid)
    then show ?thesis by (simp add: contact_invalid_no_effect)
  qed
  have whole: "isValid (message w)"
    if "length (message w) = 500" and "\<not> isSpace (hd (message w))"
      and "\<not> isSpace (last (message w))"
  proof -
    from that(1) have "message w \<noteq> []" by auto
    then have "trim (message w) = message w" using that(2,3) by (rule trim_no_outer_space)
    then show ?thesis using that(1) by (simp add: valid)
  qed
  have sent: "\<exists>rest. fst (contact_handleSubmit w)
              = [PreventDefault, SetIsSubmitting True,
                 DbInsert ''messages''
                   [(''property_id'', JsString (propertyId w)),
                    (''landlord_id'', JsString (landlordId w)),
                    (''sender_id'', JsString (uid u)),
                    (''message'', JsString (trim (message w)))]] @ rest"
    if "isValid (message w)" and "\<not> isSubmitting w"
      and "getUser w = Resolved \<lparr>user = Some u, authError = None\<rparr>"
    using contact_insert_attempted [OF that]
    by (simp add: messagePayload_def trimmedMessage_def)
  from valid invalid whole sent show ?thesis by (simp add: valid)
qed


theorem message_valid_between_1_and_500_witness:
  "isValid (replicate 500 (CHR ''a''))
   \<and> (\<exists>rest. fst (contact_handleSubmit
       \<lparr>getUser = Resolved \<lparr>user = Some (User ''tenant-1''), authError = None\<rparr>,
        message = replicate 500 (CHR ''a''), isSubmitting = False,
        propertyId = ''property-7'', landlordId = ''landlord-1'',
        insertResult = Resolved None\<rparr>)
     = [PreventDefault, SetIsSubmitting True,
        DbInsert ''messages''
          [(''property_id'', JsString ''property-7''),
           (''landlord_id'', JsString ''landlord-1''),
           (''sender_id'', JsString ''tenant-1''),
           (''message'', JsString (replicate 500 (CHR ''a'')))]] @ rest)
   \<and> contact_handleSubmit
       \<lparr>getUser = Resolved \<lparr>user = Some (User ''tenant-1''), authError = None\<rparr>,
        message = replicate 501 (CHR ''a''), isSubmitting = False,
        propertyId = ''property-7'', landlordId = ''landlord-1'',
        insertResult = Resolved None\<rparr>
     = ([PreventDefault], None)
   \<and> contact_handleSubmit
       \<lparr>getUser = Resolved \<lparr>user = Some (User ''tenant-1''), authError = None\<rparr>,
        message = ''   '', isSubmitting = False,
        propertyId = ''property-7'', landlordId = ''landlord-1'',
        insertResult = Resolved None\<rparr>
     = ([PreventDefault], None)"
proof -
  have long: "trim (replicate 500 (CHR ''a'')) = replicate 500 (CHR ''a'')"
    by (simp add: trim_def isSpace_def)
  have longer: "trim (replicate 501 (CHR ''a'')) = replicate 501 (CHR ''a'')"
    by (simp add: trim_def isSpace_def)
  have blank: "trim ''   '' = []"
    by (simp add: trim_def isSpace_def)
  from message_valid_between_1_and_500
    [where w = "\<lparr>getUser = Resolved \<lparr>user = Some (User ''tenant-1''), authError = None\<rparr>,
        message = replicate 500 (CHR ''a''), isSubmitting = False,
        propertyId = ''property-7'', landlordId = ''landlord-1'',
        insertResult = Resolved None\<rparr>"
       and u = "User ''tenant-1''"]
    message_valid_between_1_and_500
    [where w = "\<lparr>getUser = Resolved \<lparr>user = Some (User ''tenant-1''), authError = None\<rparr>,
        message = replicate 501 (CHR ''a''), isSubmitting = False,
        propertyId = ''property-7'', landlordId = ''landlord-1'',
        insertResult = Resolved None\<rparr>"]
    message_valid_between_1_and_500
    [where w = "\<lparr>getUser = Resolved \<lparr>user = Some (User ''tenant-1''), authError = None\<rparr>,
        message = ''   '', isSubmitting = False,
        propertyId = ''property-7'', landlordId = ''landlord-1'',
        insertResult = Resolved None\<rparr>"]
    long longer blank
  show ?thesis by simp
qed

text \<open>
  C7. When the insert of the message comes back with an error, the dialog shows one of
  two different messages: the permission-denied message when the error code is 42501,
  the general failure message for any other error. The insert is sent once and not
  again; no run of the handler sends more than one write. (An insert call that throws
  instead of returning an error is no insert error of the client: the \<open>catch\<close> clause
  reports it, under the title of the general failure message, and it is not sent again
  either.)
\<close>

theorem message_insert_failure_is_told_apart:
  "permissionDeniedToast \<noteq> sendFailedToast
   \<and> length (filter isWrite (fst (contact_handleSubmit w))) \<le> 1
   \<and> (isValid (message w) \<and> \<not> isSubmitting w
        \<and> getUser w = Resolved \<lparr>user = Some u, authError = None\<rparr>
        \<and> insertResult w = Resolved (Some e)
      \<longrightarrow> contact_handleSubmit w =
            ([PreventDefault, SetIsSubmitting True,
              DbInsert ''messages'' (messagePayload w u),
              ShowToast (if code e = ''42501'' then permissionDeniedToast else sendFailedToast),
              SetIsSubmitting False, SetIsSubmitting False], None)
          \<and> length (filter isWrite (fst (contact_handleSubmit w))) = 1)
   \<and> (isValid (message w) \<and> \<not> isSubmitting w
        \<and> getUser w = Resolved \<lparr>user = Some u, authError = None\<rparr>
        \<and> insertResult w = Rejected e
      \<longrightarrow> contact_handleSubmit w =
            ([PreventDefault, SetIsSubmitting True,
              DbInsert ''messages'' (messagePayload w u),
              ShowToast \<lparr>title = title sendFailedToast,
                         description = Some ''An unexpected error occurred.'',
                         variant = Destructive\<rparr>,
              SetIsSubmitting False], None))"
proof -
  have differ: "permissionDeniedToast \<noteq> sendFailedToast"
    by (simp add: permissionDeniedToast_def sendFailedToast_def)
  have failed: "contact_handleSubmit w =
            ([PreventDefault, SetIsSubmitting True,
              DbInsert ''messages'' (messagePayload w u),
              ShowToast (if code e = ''42501'' then permissionDeniedToast else sendFailedToast),
              SetIsSubmitting False, SetIsSubmitting False], None)
          \<and> length (filter isWrite (fst (contact_handleSubmit w))) = 1"
    if "isValid (message w)" and "\<not> isSubmitting w"
      and "getUser w = Resolved \<lparr>user = Some u, authError = None\<rparr>"
      and "insertResult w = Resolved (Some e)"
    using contact_insert_failed [OF that] by simp
  have thrown: "contact_handleSubmit w =
            ([PreventDefault, SetIsSubmitting True,
              DbInsert ''messages'' (messagePayload w u),
              ShowToast \<lparr>title = title sendFailedToast,
                         description = Some ''An unexpected error occurred.'',
                         variant = Destructive\<rparr>,
              SetIsSubmitting False], None)"
    if "isValid (message w)" and "\<not> isSubmitting w"
      and "getUser w = Resolved \<lparr>user = Some u, authError = None\<rparr>"
      and "insertResult w = Rejected e"
    using contact_insert_rejected [OF that] by (simp add: sendFailedToast_def)
  from differ contact_writes_at_most_once [of w] failed thrown show ?thesis by blast
qed

theorem message_insert_failure_is_told_apart_witness:
  "contact_handleSubmit
       \<lparr>getUser = Resolved \<lparr>user = Some (User ''tenant-1''), authError = None\<rparr>,
        message = ''Is the flat still free?'', isSubmitting = False,
        propertyId = ''property-7'', landlordId = ''landlord-1'',
        insertResult = Resolved (Some (JsError ''42501'' ''row-level security''))\<rparr>
     = ([PreventDefault, SetIsSubmitting True,
         DbInsert ''messages''
           [(''property_id'', JsString ''property-7''),
            (''landlord_id'', JsString ''landlord-1''),
            (''sender_id'', JsString ''tenant-1''),
            (''message'', JsString ''Is the flat still free?'')],
         ShowToast permissionDeniedToast,
         SetIsSubmitting False, SetIsSubmitting False], None)
   \<and> contact_handleSubmit
       \<lparr>getUser = Resolved \<lparr>user = Some (User ''tenant-1''), authError = None\<rparr>,
        message = ''Is the flat still free?'', isSubmitting = False,
        propertyId = ''property-7'', landlordId = ''landlord-1'',
        insertResult = Resolved (Some (JsError ''23514'' ''check constraint''))\<rparr>
     = ([PreventDefault, SetIsSubmitting True,
         DbInsert ''messages''
           [(''property_id'', JsString ''property-7''),
            (''landlord_id'', JsString ''landlord-1''),
            (''sender_id'', JsString ''tenant-1''),
            (''message'', JsString ''Is the flat still free?'')],
         ShowToast sendFailedToast,
         SetIsSubmitting False, SetIsSubmitting False], None)"
proof -
  have asked: "trim ''Is the flat still free?'' = ''Is the flat still free?''"
    by (simp add: trim_def isSpace_def)
  then have ok: "isValid ''Is the flat still free?''"
    by (simp add: isValid_def trimmedMessage_def)
  from message_insert_failure_is_told_apart
    [where w = "\<lparr>getUser = Resolved \<lparr>user = Some (User ''tenant-1''), authError = None\<rparr>,
        message = ''Is the flat still free?'', isSubmitting = False,
        propertyId = ''property-7'', landlordId = ''landlord-1'',
        insertResult = Resolved (Some (JsError ''42501'' ''row-level security''))\<rparr>"
       and u = "User ''tenant-1''" and e = "JsError ''42501'' ''row-level security''"]
    message_insert_failure_is_told_apart
    [where w = "\<lparr>getUser = Resolved \<lparr>user = Some (User ''tenant-1''), authError = None\<rparr>,
        message = ''Is the flat still free?'', isSubmitting = False,
        propertyId = ''property-7'', landlordId = ''landlord-1'',
        insertResult = Resolved (Some (JsError ''23514'' ''check constraint''))\<rparr>"
       and u = "User ''tenant-1''" and e = "JsError ''23514'' ''check constraint''"]
    asked ok
  show ?thesis by (simp add: messagePayload_def trimmedMessage_def)
qed

section \<open>Properties of the lease form\<close>

lemma validate_rejects_rent:
  "isNaN (parseFloatOf w ''rent_amount'') \<or> numLe (parseFloatOf w ''rent_amount'') 0 \<Longrightarrow>
   leases_validateAndInsert w u t
     = ([errorToast ''Error'' ''Please provide a valid rent amount''], None)"
  by (simp add: leases_validateAndInsert_def Let_def)

lemma validate_rejects_due_day:
  assumes "\<not> isNaN (parseFloatOf w ''rent_amount'')"
    and "\<not> numLe (parseFloatOf w ''rent_amount'') 0"
    and "depositAmountOf w = None
         \<or> (\<exists>d. depositAmountOf w = Some d \<and> \<not> isNaN d \<and> \<not> numLt d 0)"
    and "isNaN (parseIntOf w ''payment_due_day'') \<or> numLt (parseIntOf w ''payment_due_day'') 1
         \<or> numGt (parseIntOf w ''payment_due_day'') 31"
  shows "leases_validateAndInsert w u t
     = ([errorToast ''Error'' ''Payment due day must be between 1 and 31''], None)"
  using assms by (auto simp add: leases_validateAndInsert_def Let_def)

lemma validate_rejects:
  assumes "isNaN (parseFloatOf w ''rent_amount'') \<or> numLe (parseFloatOf w ''rent_amount'') 0
      \<or> isNaN (parseIntOf w ''payment_due_day'') \<or> numLt (parseIntOf w ''payment_due_day'') 1
      \<or> numGt (parseIntOf w ''payment_due_day'') 31"
  shows "\<exists>d. leases_validateAndInsert w u t = ([errorToast ''Error'' d], None)"
  using assms by (auto simp add: leases_validateAndInsert_def Let_def split: option.splits)

lemma leases_try_rejects:
  assumes "(\<exists>found. findProfile w (tenantEmail w) = Resolved found \<and> profile found = None)
      \<or> isNaN (parseFloatOf w ''rent_amount'') \<or> numLe (parseFloatOf w ''rent_amount'') 0
      \<or> isNaN (parseIntOf w ''payment_due_day'') \<or> numLt (parseIntOf w ''payment_due_day'') 1
      \<or> numGt (parseIntOf w ''payment_due_day'') 31"
  shows "(\<exists>d. leases_handleSubmit_try w = ([errorToast ''Error'' d], None))
         \<or> (\<exists>e. leases_handleSubmit_try w = ([], Some e))"
proof (cases "\<exists>u t. leases_handleSubmit_try w = leases_validateAndInsert w u t")
  case False
  then show ?thesis
    by (auto simp add: leases_handleSubmit_try_def
        split: awaited.splits option.splits if_splits prod.splits)
next
  case True
  then obtain u t where reached: "leases_handleSubmit_try w = leases_validateAndInsert w u t"
    by blast
  show ?thesis
  proof (cases "\<exists>found. findProfile w (tenantEmail w) = Resolved found \<and> profile found = None")
    case True
    then show ?thesis
      by (auto simp add: leases_handleSubmit_try_def
          split: awaited.splits option.splits if_splits prod.splits)
  next
    case False
    with assms validate_rejects [of w u t] reached show ?thesis by auto
  qed
qed

lemma leases_submit_rejects:
  assumes "(\<exists>found. findProfile w (tenantEmail w) = Resolved found \<and> profile found = None)
      \<or> isNaN (parseFloatOf w ''rent_amount'') \<or> numLe (parseFloatOf w ''rent_amount'') 0
      \<or> isNaN (parseIntOf w ''payment_due_day'') \<or> numLt (parseIntOf w ''payment_due_day'') 1
      \<or> numGt (parseIntOf w ''payment_due_day'') 31"
  shows "filter isWrite (fst (leases_handleSubmit w)) = []
     \<and> filter isRefresh (fst (leases_handleSubmit w)) = []
     \<and> list_ex isErrorToast (fst (leases_handleSubmit w))
     \<and> snd (leases_handleSubmit w) = None"
  using leases_try_rejects [OF assms]
  by (auto simp add: leases_handleSubmit_def tryCatch_def Let_def errorToast_def)



section \<open>Properties of the mutations\<close>

lemma properties_handleDelete_discipline:
  "length (filter isWrite (fst (properties_handleDelete w pid))) \<le> 1
   \<and> (filter isWrite (fst (properties_handleDelete w pid)) \<noteq> [] \<and> writeResult w = Resolved None
        \<longrightarrow> filter isRefresh (fst (properties_handleDelete w pid)) = [LoadProperties, OnUpdate])
   \<and> (writeResult w \<noteq> Resolved None \<longrightarrow> filter isRefresh (fst (properties_handleDelete w pid)) = [])
   \<and> filter isRefresh (takeWhile (\<lambda>e. \<not> isWrite e) (fst (properties_handleDelete w pid))) = []"
  by (simp add: properties_handleDelete_def errorToast_def successToast_def
      split: awaited.splits option.splits)

lemma properties_handleSubmit_discipline:
  "length (filter isWrite (fst (properties_handleSubmit w))) \<le> 1
   \<and> (filter isWrite (fst (properties_handleSubmit w)) \<noteq> [] \<and> writeResult w = Resolved None
        \<longrightarrow> filter isRefresh (fst (properties_handleSubmit w)) = [LoadProperties, OnUpdate])
   \<and> (writeResult w \<noteq> Resolved None \<longrightarrow> filter isRefresh (fst (properties_handleSubmit w)) = [])
   \<and> filter isRefresh (takeWhile (\<lambda>e. \<not> isWrite e) (fst (properties_handleSubmit w))) = []"
  by (simp add: properties_handleSubmit_def errorToast_def successToast_def
      split: awaited.splits option.splits)

lemma leases_handleDelete_discipline:
  "length (filter isWrite (fst (leases_handleDelete w lid))) \<le> 1
   \<and> (filter isWrite (fst (leases_handleDelete w lid)) \<noteq> [] \<and> writeResult w = Resolved None
        \<longrightarrow> filter isRefresh (fst (leases_handleDelete w lid)) = [LoadLeases, OnUpdate])
   \<and> (writeResult w \<noteq> Resolved None \<longrightarrow> filter isRefresh (fst (leases_handleDelete w lid)) = [])
   \<and> filter isRefresh (takeWhile (\<lambda>e. \<not> isWrite e) (fst (leases_handleDelete w lid))) = []"
  by (simp add: leases_handleDelete_def leases_handleDelete_try_def tryCatch_def Let_def
      errorToast_def successToast_def split: awaited.splits option.splits)

lemma markAsPaid_discipline:
  "length (filter isWrite (fst (markAsPaid w pid))) \<le> 1
   \<and> (filter isWrite (fst (markAsPaid w pid)) \<noteq> [] \<and> writeResult w = Resolved None
        \<longrightarrow> filter isRefresh (fst (markAsPaid w pid)) = [LoadPayments, OnUpdate])
   \<and> (writeResult w \<noteq> Resolved None \<longrightarrow> filter isRefresh (fst (markAsPaid w pid)) = [])
   \<and> filter isRefresh (takeWhile (\<lambda>e. \<not> isWrite e) (fst (markAsPaid w pid))) = []"
  by (simp add: markAsPaid_def markAsPaid_try_def tryCatch_def Let_def
      errorToast_def successToast_def split: awaited.splits option.splits)

lemma payments_handleSubmit_discipline:
  "length (filter isWrite (fst (payments_handleSubmit w))) \<le> 1
   \<and> (filter isWrite (fst (payments_handleSubmit w)) \<noteq> [] \<and> writeResult w = Resolved None
        \<longrightarrow> filter isRefresh (fst (payments_handleSubmit w)) = [LoadPayments, OnUpdate])
   \<and> (writeResult w \<noteq> Resolved None \<longrightarrow> filter isRefresh (fst (payments_handleSubmit w)) = [])
   \<and> filter isRefresh (takeWhile (\<lambda>e. \<not> isWrite e) (fst (payments_handleSubmit w))) = []"
  by (simp add: payments_handleSubmit_def payments_handleSubmit_try_def tryCatch_def Let_def
      errorToast_def successToast_def split: awaited.splits option.splits)

lemma leases_validateAndInsert_discipline:
  "length (filter isWrite (fst (tryCatch (leases_validateAndInsert w u t) [ConsoleError c, errorToast a b]))) \<le> 1
   \<and> (filter isWrite (fst (tryCatch (leases_validateAndInsert w u t) [ConsoleError c, errorToast a b])) \<noteq> [] \<and> writeResult w = Resolved None
        \<longrightarrow> filter isRefresh (fst (tryCatch (leases_validateAndInsert w u t) [ConsoleError c, errorToast a b])) = [LoadLeases, OnUpdate])
   \<and> (writeResult w \<noteq> Resolved None \<longrightarrow> filter isRefresh (fst (tryCatch (leases_validateAndInsert w u t) [ConsoleError c, errorToast a b])) = [])
   \<and> filter isRefresh (takeWhile (\<lambda>e. \<not> isWrite e) (fst (tryCatch (leases_validateAndInsert w u t) [ConsoleError c, errorToast a b]))) = []"
  by (simp add: leases_validateAndInsert_def tryCatch_def Let_def
      errorToast_def successToast_def split: awaited.splits option.splits)

lemma leases_handleSubmit_try_cases:
  "(\<exists>e. leases_handleSubmit_try w = ([], Some e))
   \<or> (\<exists>d. leases_handleSubmit_try w = ([errorToast ''Error'' d], None))
   \<or> (\<exists>u t. leases_handleSubmit_try w = leases_validateAndInsert w u t)"
  by (auto simp add: leases_handleSubmit_try_def split: awaited.splits option.splits)

lemma leases_handleSubmit_discipline:
  "length (filter isWrite (fst (leases_handleSubmit w))) \<le> 1
   \<and> (filter isWrite (fst (leases_handleSubmit w)) \<noteq> [] \<and> writeResult w = Resolved None
        \<longrightarrow> filter isRefresh (fst (leases_handleSubmit w)) = [LoadLeases, OnUpdate])
   \<and> (writeResult w \<noteq> Resolved None \<longrightarrow> filter isRefresh (fst (leases_handleSubmit w)) = [])
   \<and> filter isRefresh (takeWhile (\<lambda>e. \<not> isWrite e) (fst (leases_handleSubmit w))) = []"
proof -
  consider (thrown) e where "leases_handleSubmit_try w = ([], Some e)"
    | (refused) d where "leases_handleSubmit_try w = ([errorToast ''Error'' d], None)"
    | (reached) u t where "leases_handleSubmit_try w = leases_validateAndInsert w u t"
    using leases_handleSubmit_try_cases [of w] by blast
  then show ?thesis
  proof cases
    case thrown
    then show ?thesis
      by (simp add: leases_handleSubmit_def tryCatch_def Let_def errorToast_def)
  next
    case refused
    then show ?thesis
      by (simp add: leases_handleSubmit_def tryCatch_def Let_def errorToast_def)
  next
    case reached
    with leases_validateAndInsert_discipline
      [of w u t "''Unexpected error creating lease:''" "''Error''"
         "''An unexpected error occurred''"]
    show ?thesis
      by (simp add: leases_handleSubmit_def Let_def)
  qed
qed


section \<open>The claims about the lease form and the mutations\<close>

lemma leases_submit_reaches_lookup:
  assumes "getUser w = Resolved \<lparr>user = Some u, authError = None\<rparr>"
    and "tenantEmail w \<noteq> []" and "emailRegexTest (tenantEmail w)"
    and "findProfile w (tenantEmail w) = Resolved found"
  shows "leases_handleSubmit_try w =
           (case (profileError found, profile found) of
              (None, Some tenantId) \<Rightarrow> leases_validateAndInsert w u tenantId
            | _ \<Rightarrow> ([errorToast ''Error'' ''Tenant not found with this email''], None))"
  using assms by (simp add: leases_handleSubmit_try_def)

lemma lease_sample_accepted:
  "leases_handleSubmit sampleWorld =
     ([PreventDefault,
       DbInsert ''leases''
         [(''landlord_id'', JsString ''landlord-1''),
          (''property_id'', JsString ''property-7''),
          (''tenant_id'', JsString ''tenant-9''),
          (''start_date'', JsString ''2026-01-01''),
          (''end_date'', JsString ''2026-12-31''),
          (''rent_amount'', JsNumber (Num 1200)),
          (''deposit_amount'', JsNull),
          (''payment_due_day'', JsNumber (Num 1)),
          (''status'', JsString ''active'')],
       successToast ''Lease created successfully'',
       SetOpen False,
       SetTenantEmail [],
       LoadLeases,
       OnUpdate], None)"
proof -
  have email: "emailRegexTest ''t@x.io''"
    by (simp add: emailRegexTest_def emailChar_def isSpace_def upt_rec)
  show ?thesis
    by (simp add: leases_handleSubmit_def leases_handleSubmit_try_def
        leases_validateAndInsert_def tryCatch_def Let_def sampleWorld_def email
        parseFloatOf_def parseIntOf_def depositAmountOf_def leaseData_def formEntry_def)
qed

text \<open>
  C5. The lease form rejects before any write when no profile matches the tenant email
  (the lookup resolves with no row), when the parsed rent is not a number or is at most
  0, and when the parsed payment due day is not a number or lies outside 1 to 31: the
  handler then sends no insert, calls no refresh, shows an error toast and throws
  nothing. For a signed-in landlord and a well-formed email, the toast is the one of the
  first failing check: tenant not found, then the rent, then (with a valid or absent
  deposit) the due day.
\<close>

theorem lease_creation_rejects_before_insert:
  "((\<exists>found. findProfile w (tenantEmail w) = Resolved found \<and> profile found = None)
      \<or> isNaN (parseFloatOf w ''rent_amount'') \<or> numLe (parseFloatOf w ''rent_amount'') 0
      \<or> isNaN (parseIntOf w ''payment_due_day'') \<or> numLt (parseIntOf w ''payment_due_day'') 1
      \<or> numGt (parseIntOf w ''payment_due_day'') 31
     \<longrightarrow> filter isWrite (fst (leases_handleSubmit w)) = []
        \<and> filter isRefresh (fst (leases_handleSubmit w)) = []
        \<and> list_ex isErrorToast (fst (leases_handleSubmit w))
        \<and> snd (leases_handleSubmit w) = None)
   \<and> (getUser w = Resolved \<lparr>user = Some u, authError = None\<rparr>
        \<and> tenantEmail w \<noteq> [] \<and> emailRegexTest (tenantEmail w)
     \<longrightarrow>
       (findProfile w (tenantEmail w) = Resolved found \<and> profile found = None
          \<longrightarrow> leases_handleSubmit w
              = ([PreventDefault, errorToast ''Error'' ''Tenant not found with this email''],
                 None))
       \<and> (findProfile w (tenantEmail w) = Resolved \<lparr>profile = Some t, profileError = None\<rparr>
            \<and> (isNaN (parseFloatOf w ''rent_amount'') \<or> numLe (parseFloatOf w ''rent_amount'') 0)
          \<longrightarrow> leases_handleSubmit w
              = ([PreventDefault, errorToast ''Error'' ''Please provide a valid rent amount''],
                 None))
       \<and> (findProfile w (tenantEmail w) = Resolved \<lparr>profile = Some t, profileError = None\<rparr>
            \<and> \<not> isNaN (parseFloatOf w ''rent_amount'')
            \<and> \<not> numLe (parseFloatOf w ''rent_amount'') 0
            \<and> (depositAmountOf w = None
                 \<or> (\<exists>d. depositAmountOf w = Some d \<and> \<not> isNaN d \<and> \<not> numLt d 0))
            \<and> (isNaN (parseIntOf w ''payment_due_day'')
                 \<or> numLt (parseIntOf w ''payment_due_day'') 1
                 \<or> numGt (parseIntOf w ''payment_due_day'') 31)
          \<longrightarrow> leases_handleSubmit w
              = ([PreventDefault,
                  errorToast ''Error'' ''Payment due day must be between 1 and 31''], None)))"
proof -
  have general: "filter isWrite (fst (leases_handleSubmit w)) = []
        \<and> filter isRefresh (fst (leases_handleSubmit w)) = []
        \<and> list_ex isErrorToast (fst (leases_handleSubmit w))
        \<and> snd (leases_handleSubmit w) = None"
    if "(\<exists>found. findProfile w (tenantEmail w) = Resolved found \<and> profile found = None)
      \<or> isNaN (parseFloatOf w ''rent_amount'') \<or> numLe (parseFloatOf w ''rent_amount'') 0
      \<or> isNaN (parseIntOf w ''payment_due_day'') \<or> numLt (parseIntOf w ''payment_due_day'') 1
      \<or> numGt (parseIntOf w ''payment_due_day'') 31"
    using that by (rule leases_submit_rejects)
  have no_tenant: "leases_handleSubmit w
      = ([PreventDefault, errorToast ''Error'' ''Tenant not found with this email''], None)"
    if "getUser w = Resolved \<lparr>user = Some u, authError = None\<rparr>"
      and "tenantEmail w \<noteq> []" and "emailRegexTest (tenantEmail w)"
      and "findProfile w (tenantEmail w) = Resolved found" and "profile found = None"
    using leases_submit_reaches_lookup [OF that(1-4)] that(5)
    by (simp add: leases_handleSubmit_def tryCatch_def Let_def split: option.splits)
  have bad_rent: "leases_handleSubmit w
      = ([PreventDefault, errorToast ''Error'' ''Please provide a valid rent amount''], None)"
    if "getUser w = Resolved \<lparr>user = Some u, authError = None\<rparr>"
      and "tenantEmail w \<noteq> []" and "emailRegexTest (tenantEmail w)"
      and "findProfile w (tenantEmail w) = Resolved \<lparr>profile = Some t, profileError = None\<rparr>"
      and "isNaN (parseFloatOf w ''rent_amount'') \<or> numLe (parseFloatOf w ''rent_amount'') 0"
    using leases_submit_reaches_lookup [OF that(1-4)] validate_rejects_rent [OF that(5), of u t]
    by (simp add: leases_handleSubmit_def tryCatch_def Let_def)
  have bad_day: "leases_handleSubmit w
      = ([PreventDefault, errorToast ''Error'' ''Payment due day must be between 1 and 31''],
         None)"
    if "getUser w = Resolved \<lparr>user = Some u, authError = None\<rparr>"
      and "tenantEmail w \<noteq> []" and "emailRegexTest (tenantEmail w)"
      and "findProfile w (tenantEmail w) = Resolved \<lparr>profile = Some t, profileError = None\<rparr>"
      and "\<not> isNaN (parseFloatOf w ''rent_amount'')"
      and "\<not> numLe (parseFloatOf w ''rent_amount'') 0"
      and "depositAmountOf w = None
           \<or> (\<exists>d. depositAmountOf w = Some d \<and> \<not> isNaN d \<and> \<not> numLt d 0)"
      and "isNaN (parseIntOf w ''payment_due_day'')
           \<or> numLt (parseIntOf w ''payment_due_day'') 1
           \<or> numGt (parseIntOf w ''payment_due_day'') 31"
    using leases_submit_reaches_lookup [OF that(1-4)]
      validate_rejects_due_day [OF that(5-8), of u t]
    by (simp add: leases_handleSubmit_def tryCatch_def Let_def)
  from general no_tenant bad_rent bad_day show ?thesis by blast
qed


theorem lease_creation_rejects_before_insert_witness:
  "leases_handleSubmit (sampleWorld\<lparr>tenantEmail := ''n@x.io''\<rparr>)
     = ([PreventDefault, errorToast ''Error'' ''Tenant not found with this email''], None)
   \<and> filter isWrite (fst (leases_handleSubmit (sampleWorld\<lparr>tenantEmail := ''n@x.io''\<rparr>))) = []
   \<and> leases_handleSubmit
        (sampleWorld\<lparr>formData := (formData sampleWorld)(''rent_amount'' \<mapsto> ''0'')\<rparr>)
     = ([PreventDefault, errorToast ''Error'' ''Please provide a valid rent amount''], None)
   \<and> leases_handleSubmit
        (sampleWorld\<lparr>formData := (formData sampleWorld)(''rent_amount'' \<mapsto> ''abc'')\<rparr>)
     = ([PreventDefault, errorToast ''Error'' ''Please provide a valid rent amount''], None)
   \<and> leases_handleSubmit
        (sampleWorld\<lparr>formData := (formData sampleWorld)(''payment_due_day'' \<mapsto> ''32'')\<rparr>)
     = ([PreventDefault, errorToast ''Error'' ''Payment due day must be between 1 and 31''],
        None)"
proof -
  let ?stranger = "sampleWorld\<lparr>tenantEmail := ''n@x.io''\<rparr>"
  let ?free = "sampleWorld\<lparr>formData := (formData sampleWorld)(''rent_amount'' \<mapsto> ''0'')\<rparr>"
  let ?garbled = "sampleWorld\<lparr>formData := (formData sampleWorld)(''rent_amount'' \<mapsto> ''abc'')\<rparr>"
  let ?late = "sampleWorld\<lparr>formData := (formData sampleWorld)(''payment_due_day'' \<mapsto> ''32'')\<rparr>"
  have known: "emailRegexTest ''t@x.io''"
    by (simp add: emailRegexTest_def emailChar_def isSpace_def upt_rec)
  have unknown: "emailRegexTest ''n@x.io''"
    by (simp add: emailRegexTest_def emailChar_def isSpace_def upt_rec)
  have session: "getUser sampleWorld
      = Resolved \<lparr>user = Some (User ''landlord-1''), authError = None\<rparr>"
    and email: "tenantEmail sampleWorld = ''t@x.io''"
    by (simp_all add: sampleWorld_def)
  have nobody: "findProfile ?stranger ''n@x.io''
      = Resolved \<lparr>profile = None, profileError = Some (JsError ''PGRST116'' ''no rows'')\<rparr>"
    by (simp add: sampleWorld_def)
  have tenant: "findProfile sampleWorld ''t@x.io''
      = Resolved \<lparr>profile = Some ''tenant-9'', profileError = None\<rparr>"
    by (simp add: sampleWorld_def)
  have zero: "numLe (parseFloatOf ?free ''rent_amount'') 0"
    by (simp add: sampleWorld_def parseFloatOf_def)
  have nan: "isNaN (parseFloatOf ?garbled ''rent_amount'')"
    by (simp add: sampleWorld_def parseFloatOf_def)
  have rent: "\<not> isNaN (parseFloatOf ?late ''rent_amount'')"
    "\<not> numLe (parseFloatOf ?late ''rent_amount'') 0"
    by (simp_all add: sampleWorld_def parseFloatOf_def)
  have deposit: "depositAmountOf ?late = None"
    by (simp add: sampleWorld_def depositAmountOf_def)
  have day: "numGt (parseIntOf ?late ''payment_due_day'') 31"
    by (simp add: sampleWorld_def parseIntOf_def)
  from lease_creation_rejects_before_insert
      [where w = ?stranger and u = "User ''landlord-1''"
         and found = "\<lparr>profile = None, profileError = Some (JsError ''PGRST116'' ''no rows'')\<rparr>"]
    session unknown nobody
  have first: "leases_handleSubmit ?stranger
      = ([PreventDefault, errorToast ''Error'' ''Tenant not found with this email''], None)
    \<and> filter isWrite (fst (leases_handleSubmit ?stranger)) = []"
    by (simp add: errorToast_def)
  from lease_creation_rejects_before_insert
      [where w = ?free and u = "User ''landlord-1''" and t = "''tenant-9''"]
    session email known tenant zero
  have second: "leases_handleSubmit ?free
      = ([PreventDefault, errorToast ''Error'' ''Please provide a valid rent amount''], None)"
    by simp
  from lease_creation_rejects_before_insert
      [where w = ?garbled and u = "User ''landlord-1''" and t = "''tenant-9''"]
    session email known tenant nan
  have third: "leases_handleSubmit ?garbled
      = ([PreventDefault, errorToast ''Error'' ''Please provide a valid rent amount''], None)"
    by simp
  from lease_creation_rejects_before_insert
      [where w = ?late and u = "User ''landlord-1''" and t = "''tenant-9''"]
    session email known tenant rent deposit day
  have fourth: "leases_handleSubmit ?late
      = ([PreventDefault, errorToast ''Error'' ''Payment due day must be between 1 and 31''],
         None)"
    by simp
  from first second third fourth show ?thesis by blast
qed

lemma properties_handleSubmit_reaches:
  "reachesWrite PropertiesSubmit w \<longleftrightarrow> filter isWrite (fst (properties_handleSubmit w)) \<noteq> []"
  by (simp add: properties_handleSubmit_def hasUser_def errorToast_def successToast_def
      split: awaited.splits option.splits number.splits)

lemma properties_handleDelete_reaches:
  "reachesWrite (PropertiesDelete pid) w \<longleftrightarrow> filter isWrite (fst (properties_handleDelete w pid)) \<noteq> []"
  by (simp add: properties_handleDelete_def errorToast_def successToast_def
      split: awaited.splits option.splits number.splits)

lemma leases_handleDelete_reaches:
  "reachesWrite (LeasesDelete lid) w \<longleftrightarrow> filter isWrite (fst (leases_handleDelete w lid)) \<noteq> []"
  by (simp add: leases_handleDelete_def leases_handleDelete_try_def tryCatch_def Let_def signedIn_def errorToast_def successToast_def
      split: awaited.splits option.splits number.splits)

lemma payments_handleSubmit_reaches:
  "reachesWrite PaymentsSubmit w \<longleftrightarrow> filter isWrite (fst (payments_handleSubmit w)) \<noteq> []"
  by (simp add: payments_handleSubmit_def payments_handleSubmit_try_def tryCatch_def Let_def errorToast_def successToast_def
      split: awaited.splits option.splits number.splits)

lemma markAsPaid_reaches:
  "reachesWrite (PaymentsMarkAsPaid pid) w \<longleftrightarrow> filter isWrite (fst (markAsPaid w pid)) \<noteq> []"
  by (simp add: markAsPaid_def markAsPaid_try_def tryCatch_def Let_def signedIn_def errorToast_def successToast_def
      split: awaited.splits option.splits number.splits)

lemma tryCatch_writes:
  "filter isWrite (fst (tryCatch body [ConsoleError c, errorToast a d]))
     = filter isWrite (fst body)"
  by (simp add: tryCatch_def errorToast_def split: option.splits)

lemma leases_validateAndInsert_reaches:
  "leaseFieldsValid w \<longleftrightarrow> filter isWrite (fst (leases_validateAndInsert w u t)) \<noteq> []"
  by (simp add: leases_validateAndInsert_def leaseFieldsValid_def Let_def
      errorToast_def successToast_def split: awaited.splits option.splits)

lemma leases_try_reaches_validation:
  assumes "signedIn w" and "tenantEmail w \<noteq> []" and "emailRegexTest (tenantEmail w)"
    and "tenantFound w"
  shows "\<exists>u t. leases_handleSubmit_try w = leases_validateAndInsert w u t"
  using assms
  by (auto simp add: leases_handleSubmit_try_def signedIn_def tenantFound_def
      split: awaited.splits option.splits)

lemma leases_try_stops_early:
  assumes "\<not> (signedIn w \<and> tenantEmail w \<noteq> [] \<and> emailRegexTest (tenantEmail w)
             \<and> tenantFound w)"
  shows "filter isWrite (fst (leases_handleSubmit_try w)) = []"
  using assms
  by (auto simp add: leases_handleSubmit_try_def signedIn_def tenantFound_def errorToast_def
      split: awaited.splits option.splits)

lemma leases_handleSubmit_reaches:
  "reachesWrite LeasesSubmit w \<longleftrightarrow> filter isWrite (fst (leases_handleSubmit w)) \<noteq> []"
proof (cases "signedIn w \<and> tenantEmail w \<noteq> [] \<and> emailRegexTest (tenantEmail w)
             \<and> tenantFound w")
  case True
  then obtain u t where "leases_handleSubmit_try w = leases_validateAndInsert w u t"
    using leases_try_reaches_validation [of w] by blast
  with True leases_validateAndInsert_reaches [of w u t] show ?thesis
    by (simp add: leases_handleSubmit_def Let_def tryCatch_writes)
next
  case False
  with leases_try_stops_early [OF False] show ?thesis
    by (auto simp add: leases_handleSubmit_def Let_def tryCatch_writes)
qed


text \<open>
  C8. For every mutation of the three sections (the properties form, which inserts or
  updates, the deletion of a property, the lease form, the deletion of a lease, the
  payment form, the marking of a payment as paid): the handler sends at most one write,
  and sends it exactly on the inputs that pass its checks (\<open>reachesWrite\<close>). On those
  inputs, when the write succeeds, the handler calls the reload of its own list and the
  \<open>onUpdate\<close> callback, each once; when the write rejects or comes back with an error,
  it calls neither; and it never calls either before the write.
\<close>

theorem mutation_refreshes_after_success_only:
  "length (filter isWrite (fst (runMutation m w))) \<le> 1
   \<and> (reachesWrite m w \<longleftrightarrow> filter isWrite (fst (runMutation m w)) \<noteq> [])
   \<and> (reachesWrite m w \<and> writeResult w = Resolved None
        \<longrightarrow> filter isRefresh (fst (runMutation m w)) = [localRefresh m, OnUpdate])
   \<and> (writeResult w \<noteq> Resolved None \<longrightarrow> filter isRefresh (fst (runMutation m w)) = [])
   \<and> filter isRefresh (takeWhile (\<lambda>e. \<not> isWrite e) (fst (runMutation m w))) = []"
proof (cases m)
  case PropertiesSubmit
  with properties_handleSubmit_discipline [of w] properties_handleSubmit_reaches [of w]
  show ?thesis by simp
next
  case (PropertiesDelete pid)
  with properties_handleDelete_discipline [of w pid] properties_handleDelete_reaches [of pid w]
  show ?thesis by simp
next
  case LeasesSubmit
  with leases_handleSubmit_discipline [of w] leases_handleSubmit_reaches [of w]
  show ?thesis by simp
next
  case (LeasesDelete lid)
  with leases_handleDelete_discipline [of w lid] leases_handleDelete_reaches [of lid w]
  show ?thesis by simp
next
  case PaymentsSubmit
  with payments_handleSubmit_discipline [of w] payments_handleSubmit_reaches [of w]
  show ?thesis by simp
next
  case (PaymentsMarkAsPaid pid)
  with markAsPaid_discipline [of w pid] markAsPaid_reaches [of pid w]
  show ?thesis by simp
qed

theorem mutation_refreshes_after_success_only_witness:
  "filter isRefresh (fst (runMutation PropertiesSubmit
        (sampleWorld))) = [LoadProperties, OnUpdate]
   \<and> filter isRefresh (fst (runMutation PropertiesSubmit
        (sampleWorld\<lparr>editingProperty := Some ''property-7''\<rparr>))) = [LoadProperties, OnUpdate]
   \<and> filter isRefresh (fst (runMutation (PropertiesDelete ''property-7'')
        (sampleWorld))) = [LoadProperties, OnUpdate]
   \<and> filter isRefresh (fst (runMutation LeasesSubmit
        (sampleWorld))) = [LoadLeases, OnUpdate]
   \<and> filter isRefresh (fst (runMutation (LeasesDelete ''lease-3'')
        (sampleWorld))) = [LoadLeases, OnUpdate]
   \<and> filter isRefresh (fst (runMutation PaymentsSubmit
        (sampleWorld))) = [LoadPayments, OnUpdate]
   \<and> filter isRefresh (fst (runMutation (PaymentsMarkAsPaid ''payment-4'')
        (sampleWorld))) = [LoadPayments, OnUpdate]
   \<and> filter isRefresh (fst (runMutation (PropertiesDelete ''property-7'')
        (sampleWorld\<lparr>writeResult := Resolved (Some (JsError ''23503'' ''still referenced''))\<rparr>))) = []
   \<and> filter isRefresh (fst (runMutation (PaymentsMarkAsPaid ''payment-4'')
        (sampleWorld\<lparr>writeResult := Rejected (JsError [] ''Failed to fetch'')\<rparr>))) = []
   \<and> filter isRefresh (fst (runMutation LeasesSubmit
        (sampleWorld\<lparr>writeResult := Resolved (Some (JsError ''23514'' ''check constraint''))\<rparr>))) = []"
proof -
  have known: "emailRegexTest ''t@x.io''"
    by (simp add: emailRegexTest_def emailChar_def isSpace_def upt_rec)
  from mutation_refreshes_after_success_only
      [where m = "PropertiesSubmit" and w = "sampleWorld"]
    known
  have created: "filter isRefresh (fst (runMutation PropertiesSubmit
        (sampleWorld))) = [LoadProperties, OnUpdate]"
    by (simp add: sampleWorld_def hasUser_def signedIn_def tenantFound_def leaseFieldsValid_def
        parseFloatOf_def parseIntOf_def depositAmountOf_def)
  from mutation_refreshes_after_success_only
      [where m = "PropertiesSubmit" and w = "sampleWorld\<lparr>editingProperty := Some ''property-7''\<rparr>"]
    known
  have updated: "filter isRefresh (fst (runMutation PropertiesSubmit
        (sampleWorld\<lparr>editingProperty := Some ''property-7''\<rparr>))) = [LoadProperties, OnUpdate]"
    by (simp add: sampleWorld_def hasUser_def signedIn_def tenantFound_def leaseFieldsValid_def
        parseFloatOf_def parseIntOf_def depositAmountOf_def)
  from mutation_refreshes_after_success_only
      [where m = "PropertiesDelete ''property-7''" and w = "sampleWorld"]
    known
  have removed: "filter isRefresh (fst (runMutation (PropertiesDelete ''property-7'')
        (sampleWorld))) = [LoadProperties, OnUpdate]"
    by (simp add: sampleWorld_def hasUser_def signedIn_def tenantFound_def leaseFieldsValid_def
        parseFloatOf_def parseIntOf_def depositAmountOf_def)
  from mutation_refreshes_after_success_only
      [where m = "LeasesSubmit" and w = "sampleWorld"]
    known
  have leased: "filter isRefresh (fst (runMutation LeasesSubmit
        (sampleWorld))) = [LoadLeases, OnUpdate]"
    by (simp add: sampleWorld_def hasUser_def signedIn_def tenantFound_def leaseFieldsValid_def
        parseFloatOf_def parseIntOf_def depositAmountOf_def)
  from mutation_refreshes_after_success_only
      [where m = "LeasesDelete ''lease-3''" and w = "sampleWorld"]
    known
  have ended: "filter isRefresh (fst (runMutation (LeasesDelete ''lease-3'')
        (sampleWorld))) = [LoadLeases, OnUpdate]"
    by (simp add: sampleWorld_def hasUser_def signedIn_def tenantFound_def leaseFieldsValid_def
        parseFloatOf_def parseIntOf_def depositAmountOf_def)
  from mutation_refreshes_after_success_only
      [where m = "PaymentsSubmit" and w = "sampleWorld"]
    known
  have billed: "filter isRefresh (fst (runMutation PaymentsSubmit
        (sampleWorld))) = [LoadPayments, OnUpdate]"
    by (simp add: sampleWorld_def hasUser_def signedIn_def tenantFound_def leaseFieldsValid_def
        parseFloatOf_def parseIntOf_def depositAmountOf_def)
  from mutation_refreshes_after_success_only
      [where m = "PaymentsMarkAsPaid ''payment-4''" and w = "sampleWorld"]
    known
  have paid: "filter isRefresh (fst (runMutation (PaymentsMarkAsPaid ''payment-4'')
        (sampleWorld))) = [LoadPayments, OnUpdate]"
    by (simp add: sampleWorld_def hasUser_def signedIn_def tenantFound_def leaseFieldsValid_def
        parseFloatOf_def parseIntOf_def depositAmountOf_def)
  from mutation_refreshes_after_success_only
      [where m = "PropertiesDelete ''property-7''" and w = "sampleWorld\<lparr>writeResult := Resolved (Some (JsError ''23503'' ''still referenced''))\<rparr>"]
  have refused: "filter isRefresh (fst (runMutation (PropertiesDelete ''property-7'')
        (sampleWorld\<lparr>writeResult := Resolved (Some (JsError ''23503'' ''still referenced''))\<rparr>))) = []"
    by simp
  from mutation_refreshes_after_success_only
      [where m = "PaymentsMarkAsPaid ''payment-4''" and w = "sampleWorld\<lparr>writeResult := Rejected (JsError [] ''Failed to fetch'')\<rparr>"]
  have dropped: "filter isRefresh (fst (runMutation (PaymentsMarkAsPaid ''payment-4'')
        (sampleWorld\<lparr>writeResult := Rejected (JsError [] ''Failed to fetch'')\<rparr>))) = []"
    by simp
  from mutation_refreshes_after_success_only
      [where m = "LeasesSubmit" and w = "sampleWorld\<lparr>writeResult := Resolved (Some (JsError ''23514'' ''check constraint''))\<rparr>"]
  have declined: "filter isRefresh (fst (runMutation LeasesSubmit
        (sampleWorld\<lparr>writeResult := Resolved (Some (JsError ''23514'' ''check constraint''))\<rparr>))) = []"
    by simp
  from created updated removed leased ended billed paid refused dropped declined show ?thesis by blast
qed

end
